theory Spec2Isabelle
  imports Complex_Main "HOL-Library.Word"
begin

section \<open>JavaScript values\<close>

text \<open>
  The dashboard handles values of TypeScript type \<^verbatim>\<open>any\<close>: webhook payloads,
  decoded response bodies, parsed realtime frames. They are modelled by the JSON-shaped
  part of the JavaScript value space plus \<^verbatim>\<open>undefined\<close>. An object is an
  association list in property order. Numbers are rationals (\<^verbatim>\<open>NaN\<close> and the
  infinities are not JSON and are left out). One kind of object that is not data is in
  the model, because \<^verbatim>\<open>JSON.stringify\<close> treats it differently: \<open>JToJSON v\<close> is
  an object whose only own property is a method \<^verbatim>\<open>toJSON\<close> that returns \<open>v\<close>, as
  in \<^verbatim>\<open>{ toJSON() { return v } }\<close>.
\<close>

datatype js_value =
    JUndefined
  | JNull
  | JBool bool
  | JNum rat
  | JStr string
  | JArr "js_value list"
  | JObj "(string \<times> js_value) list"
  | JToJSON js_value

text \<open>JavaScript truthiness (\<^verbatim>\<open>ToBoolean\<close>).\<close>

fun truthy :: "js_value \<Rightarrow> bool" where
  "truthy JUndefined = False"
| "truthy JNull = False"
| "truthy (JBool b) = b"
| "truthy (JNum n) = (n \<noteq> 0)"
| "truthy (JStr s) = (s \<noteq> [])"
| "truthy (JArr _) = True"
| "truthy (JObj _) = True"
| "truthy (JToJSON _) = True"

text \<open>\<^verbatim>\<open>a || b\<close> and \<^verbatim>\<open>a && b\<close> on values.\<close>

definition js_or :: "js_value \<Rightarrow> js_value \<Rightarrow> js_value" where
  "js_or a b = (if truthy a then a else b)"

definition js_and :: "js_value \<Rightarrow> js_value \<Rightarrow> js_value" where
  "js_and a b = (if truthy a then b else a)"

text \<open>
  Property read \<^verbatim>\<open>v.k\<close> on a value that is neither \<^verbatim>\<open>null\<close> nor
  \<^verbatim>\<open>undefined\<close>: an own property of an object, \<^verbatim>\<open>undefined\<close> otherwise
  (none of the keys read by this program is a built-in property of a string, a number or
  an array).
\<close>

fun get_prop :: "js_value \<Rightarrow> string \<Rightarrow> js_value" where
  "get_prop (JObj kvs) k = (case map_of kvs k of Some v \<Rightarrow> v | None \<Rightarrow> JUndefined)"
| "get_prop _ k = JUndefined"

text \<open>Optional chaining \<^verbatim>\<open>v?.k\<close>: short-circuits on \<^verbatim>\<open>null\<close> and \<^verbatim>\<open>undefined\<close>.\<close>

fun opt_prop :: "js_value \<Rightarrow> string \<Rightarrow> js_value" where
  "opt_prop JUndefined k = JUndefined"
| "opt_prop JNull k = JUndefined"
| "opt_prop v k = get_prop v k"

section \<open>Webhook store (vapi-webhook-store.ts)\<close>

record WebhookEvent =
  evt_id :: string
  receivedAt :: string
  payload :: js_value
  contentType :: "string option"
  evt_size :: "nat option"
  verified :: "bool option"
  eventType :: js_value

text \<open>The argument object of \<^verbatim>\<open>pushWebhookEvent\<close>.\<close>

record stored_input =
  in_payload :: js_value
  in_contentType :: "string option"
  in_size :: "nat option"
  in_verified :: "bool option"

definition MAX_EVENTS :: nat where
  "MAX_EVENTS = 200"

text \<open>
  The event object built by \<^verbatim>\<open>pushWebhookEvent\<close>. The random identifier
  (\<^verbatim>\<open>Math.random().toString(36).substring(2, 9)\<close>) and the clock reading
  (\<^verbatim>\<open>new Date().toISOString()\<close>) come from the runtime and are arguments here.
\<close>

definition make_event :: "stored_input \<Rightarrow> string \<Rightarrow> string \<Rightarrow> WebhookEvent" where
  "make_event stored rid now =
     \<lparr> evt_id = rid,
       receivedAt = now,
       payload = in_payload stored,
       contentType = in_contentType stored,
       evt_size = in_size stored,
       verified = in_verified stored,
       eventType =
         js_or (js_and (in_payload stored)
                  (js_or (js_or (opt_prop (in_payload stored) ''type'')
                                (opt_prop (in_payload stored) ''event''))
                         (opt_prop (in_payload stored) ''eventType'')))
               JUndefined \<rparr>"

text \<open>
  \<^verbatim>\<open>store.unshift(evt); if (store.length > MAX_EVENTS) store.pop(); return evt;\<close>
  The module-level array is passed in and returned. \<^verbatim>\<open>unshift\<close> puts the event at
  index 0, \<^verbatim>\<open>pop\<close> removes the last element.
\<close>

definition pushWebhookEvent ::
  "stored_input \<Rightarrow> string \<Rightarrow> string \<Rightarrow> WebhookEvent list \<Rightarrow> WebhookEvent \<times> WebhookEvent list" where
  "pushWebhookEvent stored rid now store =
     (let evt = make_event stored rid now;
          store1 = evt # store;
          store2 = (if length store1 > MAX_EVENTS then butlast store1 else store1)
      in (evt, store2))"

text \<open>\<^verbatim>\<open>store.length = 0\<close>.\<close>

definition clearWebhookEvents :: "WebhookEvent list \<Rightarrow> WebhookEvent list" where
  "clearWebhookEvents store = []"

text \<open>
  A sequence of calls of \<^verbatim>\<open>pushWebhookEvent\<close>, each with its argument, its random
  identifier and its clock reading, run in order on the store.
\<close>

fun push_all :: "(stored_input \<times> string \<times> string) list \<Rightarrow> WebhookEvent list \<Rightarrow> WebhookEvent list" where
  "push_all [] store = store"
| "push_all ((stored, rid, now) # calls) store =
     push_all calls (snd (pushWebhookEvent stored rid now store))"

text \<open>The events of a sequence of calls, in call order.\<close>

definition events_of :: "(stored_input \<times> string \<times> string) list \<Rightarrow> WebhookEvent list" where
  "events_of calls = map (\<lambda>(stored, rid, now). make_event stored rid now) calls"

text \<open>An example argument: a JSON payload with a \<^verbatim>\<open>type\<close> property.\<close>

definition example_stored :: stored_input where
  "example_stored =
     \<lparr> in_payload = JObj [(''type'', JStr ''status-update'')],
       in_contentType = Some ''application/json'',
       in_size = Some 24,
       in_verified = Some False \<rparr>"

section \<open>Errors, promises and async functions\<close>

text \<open>
  The error objects that travel through the program. The two the program constructs
  itself have a constructor each; everything thrown by the runtime (a failed
  \<^verbatim>\<open>fetch\<close>, \<^verbatim>\<open>JSON.stringify\<close> on a cyclic structure, a body that is not
  JSON) is a \<open>RuntimeError\<close> with its message.
\<close>

datatype js_error =
    HttpError nat string
      \<comment> \<open>\<^verbatim>\<open>new Error(`HTTP ${response.status}: ${errorText}`)\<close>\<close>
  | CredentialUpdateUnsupported
      \<comment> \<open>\<^verbatim>\<open>new Error('Credential updates are not supported by VAPI API. Please delete and recreate the credential instead.')\<close>\<close>
  | RuntimeError string

text \<open>
  A statement sequence completes with a value or with a throw: \<open>js_error + 'a\<close>,
  \<open>Inl\<close> the throw. A promise, once settled, is fulfilled or rejected.
\<close>

datatype 'a promise = Fulfilled 'a | Rejected js_error

text \<open>\<^verbatim>\<open>await p\<close>: the value of a fulfilled promise, a throw at the \<^verbatim>\<open>await\<close> for a rejected one.\<close>

definition await :: "'a promise \<Rightarrow> js_error + 'a" where
  "await p = (case p of Fulfilled v \<Rightarrow> Inr v | Rejected e \<Rightarrow> Inl e)"

text \<open>
  \<^verbatim>\<open>try { body } catch (error) { handler }\<close>: the handler runs when the body completes
  with a throw, that is, when a statement inside the block throws while the block is
  being executed.
\<close>

definition try_catch :: "js_error + 'a \<Rightarrow> (js_error \<Rightarrow> js_error + 'a) \<Rightarrow> js_error + 'a" where
  "try_catch body handler = (case body of Inl e \<Rightarrow> handler e | Inr v \<Rightarrow> Inr v)"

text \<open>
  The promise of an \<^verbatim>\<open>async\<close> function whose body completes with a plain value or a
  throw.
\<close>

definition async :: "js_error + 'a \<Rightarrow> 'a promise" where
  "async body = (case body of Inl e \<Rightarrow> Rejected e | Inr v \<Rightarrow> Fulfilled v)"

text \<open>
  The promise of an \<^verbatim>\<open>async\<close> function whose body completes with
  \<^verbatim>\<open>return p\<close> for a promise \<open>p\<close> that was not awaited: the function's promise
  follows \<open>p\<close>. The body has completed by then, so a rejection of \<open>p\<close> is not a throw
  inside any \<^verbatim>\<open>try\<close> block of the body.
\<close>

definition async_follow :: "js_error + 'a promise \<Rightarrow> 'a promise" where
  "async_follow body = (case body of Inl e \<Rightarrow> Rejected e | Inr p \<Rightarrow> p)"

section \<open>API client (class VapiService)\<close>

text \<open>
  The runtime functions the client calls: \<^verbatim>\<open>JSON.parse\<close> (\<open>None\<close> when it throws a
  \<^verbatim>\<open>SyntaxError\<close>) and \<^verbatim>\<open>JSON.stringify\<close> on a value other than
  \<^verbatim>\<open>undefined\<close> (a text, or a throw: a cyclic structure, a \<^verbatim>\<open>BigInt\<close>).
\<close>

record js_runtime =
  JSON_parse :: "string \<Rightarrow> js_value option"
  stringify :: "js_value \<Rightarrow> js_error + string"

text \<open>
  \<^verbatim>\<open>JSON.stringify(v)\<close>: \<^verbatim>\<open>undefined\<close> for \<^verbatim>\<open>undefined\<close>. For an
  object with a \<^verbatim>\<open>toJSON\<close> method the value the method returns is serialised in
  its place, \<^verbatim>\<open>undefined\<close> again giving \<^verbatim>\<open>undefined\<close>.
\<close>

definition stringify_text :: "'r js_runtime_scheme \<Rightarrow> js_value \<Rightarrow> js_error + string option" where
  "stringify_text rt v = (case stringify rt v of Inl e \<Rightarrow> Inl e | Inr s \<Rightarrow> Inr (Some s))"

definition JSON_stringify :: "'r js_runtime_scheme \<Rightarrow> js_value \<Rightarrow> js_error + string option" where
  "JSON_stringify rt v =
     (case v of
        JUndefined \<Rightarrow> Inr None
      | JToJSON r \<Rightarrow> (case r of JUndefined \<Rightarrow> Inr None | _ \<Rightarrow> stringify_text rt r)
      | _ \<Rightarrow> stringify_text rt v)"

record VapiService =
  baseUrl :: string
  apiKey :: string

text \<open>What \<^verbatim>\<open>fetch(url, config)\<close> sends.\<close>

record http_request =
  req_method :: "string option"
  req_url :: string
  req_headers :: "(string \<times> string) list"
  req_body :: "string option"

text \<open>
  A response: its status, and how reading its body as text (\<^verbatim>\<open>response.text()\<close>)
  and as JSON (\<^verbatim>\<open>response.json()\<close>) settles.
\<close>

record http_response =
  status :: nat
  body_text :: "string promise"
  body_json :: "js_value promise"

text \<open>\<^verbatim>\<open>response.ok\<close>: the status is in the range 200 to 299.\<close>

definition ok :: "http_response \<Rightarrow> bool" where
  "ok r = (200 \<le> status r \<and> status r \<le> 299)"

text \<open>
  The external platform, seen from the client: how the promise of \<^verbatim>\<open>fetch\<close> settles
  for a request.
\<close>

type_synonym platform = "http_request \<Rightarrow> http_response promise"

text \<open>\<^verbatim>\<open>RequestInit\<close> as the client's methods fill it.\<close>

record request_options =
  opt_method :: "string option"
  opt_body :: "string option"

definition no_options :: request_options where
  "no_options = \<lparr> opt_method = None, opt_body = None \<rparr>"

text \<open>
  \<^verbatim>\<open>private async request(endpoint, options = {})\<close>. Building \<^verbatim>\<open>apiCallInfo\<close>
  parses a non-empty body with \<^verbatim>\<open>JSON.parse\<close> before the \<^verbatim>\<open>try\<close> block; a
  throw there rejects the promise. Inside the block the response is awaited; a status
  outside 2xx throws the \<open>HttpError\<close>; the \<^verbatim>\<open>catch\<close> block reports the error and
  throws it again. Console output and the \<^verbatim>\<open>vapiApiCall\<close> event change nothing in
  the promise returned, in a browser, and are left out.
\<close>

definition request ::
  "'r js_runtime_scheme \<Rightarrow> platform \<Rightarrow> VapiService \<Rightarrow> string \<Rightarrow> request_options \<Rightarrow> js_value promise" where
  "request rt net svc endpoint options =
     async
       (case (case opt_body options of
                None \<Rightarrow> Inr JUndefined
              | Some b \<Rightarrow>
                  if b = [] then Inr JUndefined
                  else (case JSON_parse rt b of
                          None \<Rightarrow> Inl (RuntimeError ''SyntaxError'')
                        | Some v \<Rightarrow> Inr v)) of
          Inl e \<Rightarrow> Inl e
        | Inr logged_body \<Rightarrow>
            try_catch
              (case await (net \<lparr> req_method = opt_method options,
                                  req_url = baseUrl svc @ endpoint,
                                  req_headers =
                                    [(''Authorization'', ''Bearer '' @ apiKey svc),
                                     (''Content-Type'', ''application/json'')],
                                  req_body = opt_body options \<rparr>) of
                 Inl e \<Rightarrow> Inl e
               | Inr response \<Rightarrow>
                   if \<not> ok response then
                     (case await (body_text response) of
                        Inl e \<Rightarrow> Inl e
                      | Inr errorText \<Rightarrow> Inl (HttpError (status response) errorText))
                   else
                     (case await (body_json response) of
                        Inl e \<Rightarrow> Inl e
                      | Inr data \<Rightarrow> Inr data))
              (\<lambda>error. Inl error))"

text \<open>\<^verbatim>\<open>Array.isArray\<close>.\<close>

fun isArray :: "js_value \<Rightarrow> bool" where
  "isArray (JArr _) = True"
| "isArray _ = False"

text \<open>
  The three list operations share one shape:
  \<^verbatim>\<open>try { const response = await this.request(E); return Array.isArray(response) ? response : []; } catch (error) { return []; }\<close>
\<close>

definition getPhoneNumbers :: "'r js_runtime_scheme \<Rightarrow> platform \<Rightarrow> VapiService \<Rightarrow> js_value promise" where
  "getPhoneNumbers rt net svc =
     async
       (try_catch
          (case await (request rt net svc ''/phone-number'' no_options) of
             Inl e \<Rightarrow> Inl e
           | Inr response \<Rightarrow> Inr (if isArray response then response else JArr []))
          (\<lambda>error. Inr (JArr [])))"

definition getAssistants :: "'r js_runtime_scheme \<Rightarrow> platform \<Rightarrow> VapiService \<Rightarrow> js_value promise" where
  "getAssistants rt net svc =
     async
       (try_catch
          (case await (request rt net svc ''/assistant'' no_options) of
             Inl e \<Rightarrow> Inl e
           | Inr response \<Rightarrow> Inr (if isArray response then response else JArr []))
          (\<lambda>error. Inr (JArr [])))"

definition getCredentials :: "'r js_runtime_scheme \<Rightarrow> platform \<Rightarrow> VapiService \<Rightarrow> js_value promise" where
  "getCredentials rt net svc =
     async
       (try_catch
          (case await (request rt net svc ''/credential'' no_options) of
             Inl e \<Rightarrow> Inl e
           | Inr response \<Rightarrow> Inr (if isArray response then response else JArr []))
          (\<lambda>error. Inr (JArr [])))"

text \<open>\<^verbatim>\<open>async getCall(callId) { return this.request(`/call/${callId}`); }\<close>\<close>

definition getCall :: "'r js_runtime_scheme \<Rightarrow> platform \<Rightarrow> VapiService \<Rightarrow> string \<Rightarrow> js_value promise" where
  "getCall rt net svc callId =
     async_follow (Inr (request rt net svc (''/call/'' @ callId) no_options))"

text \<open>
  \<^verbatim>\<open>async updateCredential(credentialId, credentialData)\<close>. Inside the \<^verbatim>\<open>try\<close>
  block the argument of \<^verbatim>\<open>this.request\<close> is evaluated (\<^verbatim>\<open>JSON.stringify\<close> may
  throw there) and the promise of \<^verbatim>\<open>this.request\<close> is returned as it is: the source
  has \<^verbatim>\<open>return this.request(...)\<close>, with no \<^verbatim>\<open>await\<close>. The \<^verbatim>\<open>catch\<close> block
  throws the \<open>CredentialUpdateUnsupported\<close> error.
\<close>

definition updateCredential ::
  "'r js_runtime_scheme \<Rightarrow> platform \<Rightarrow> VapiService \<Rightarrow> string \<Rightarrow> js_value \<Rightarrow> js_value promise" where
  "updateCredential rt net svc credentialId credentialData =
     async_follow
       (try_catch
          (case JSON_stringify rt credentialData of
             Inl e \<Rightarrow> Inl e
           | Inr body \<Rightarrow>
               Inr (request rt net svc (''/credential/'' @ credentialId)
                      \<lparr> opt_method = Some ''PATCH'', opt_body = body \<rparr>))
          (\<lambda>error. Inl CredentialUpdateUnsupported))"

text \<open>
  A fragment of \<^verbatim>\<open>JSON.parse\<close> and \<^verbatim>\<open>JSON.stringify\<close>, enough to run the
  examples of this theory: the five shortest JSON texts. On every text and value used in
  an example it agrees with the runtime's functions.
\<close>

definition parse_fragment :: "string \<Rightarrow> js_value option" where
  "parse_fragment s =
     (if s = ''{}'' then Some (JObj [])
      else if s = ''[]'' then Some (JArr [])
      else if s = ''null'' then Some JNull
      else if s = ''true'' then Some (JBool True)
      else if s = ''false'' then Some (JBool False)
      else None)"

fun stringify_fragment :: "js_value \<Rightarrow> js_error + string" where
  "stringify_fragment (JObj []) = Inr ''{}''"
| "stringify_fragment (JArr []) = Inr ''[]''"
| "stringify_fragment JNull = Inr ''null''"
| "stringify_fragment (JBool b) = Inr (if b then ''true'' else ''false'')"
| "stringify_fragment _ = Inl (RuntimeError ''TypeError: Converting circular structure to JSON'')"

definition runtime_fragment :: js_runtime where
  "runtime_fragment = \<lparr> JSON_parse = parse_fragment, stringify = stringify_fragment \<rparr>"

definition example_service :: VapiService where
  "example_service = \<lparr> baseUrl = ''https://api.vapi.ai'', apiKey = ''key'' \<rparr>"

text \<open>A platform that answers every request with status 405 and the body \<^verbatim>\<open>Method Not Allowed\<close>.\<close>

definition platform_405 :: platform where
  "platform_405 req =
     Fulfilled \<lparr> status = 405,
                 body_text = Fulfilled ''Method Not Allowed'',
                 body_json = Rejected (RuntimeError ''SyntaxError'') \<rparr>"

text \<open>A platform whose connection fails.\<close>

definition platform_down :: platform where
  "platform_down req = Rejected (RuntimeError ''TypeError: Failed to fetch'')"

text \<open>A platform that answers every request with status 200 and a JSON body.\<close>

definition platform_200 :: "js_value \<Rightarrow> platform" where
  "platform_200 v req =
     Fulfilled \<lparr> status = 200, body_text = Fulfilled [], body_json = Fulfilled v \<rparr>"

section \<open>Event normalizer (normalizeWsData)\<close>

type_synonym byte = "8 word"

text \<open>
  A \<^verbatim>\<open>Blob\<close>: reading its content settles with the bytes, or rejects.
\<close>

datatype blob = Blob "byte list promise"

text \<open>
  What a realtime frame can be (\<^verbatim>\<open>data: any\<close>): a \<^verbatim>\<open>Blob\<close>, an
  \<^verbatim>\<open>ArrayBuffer\<close>, or any other value (a string among them).
\<close>

datatype ws_data =
    Value js_value
  | BlobData blob
  | ArrayBufferData "byte list"

text \<open>
  The browser functions the normalizer calls, beyond \<^verbatim>\<open>JSON.parse\<close> and
  \<^verbatim>\<open>JSON.stringify\<close>: UTF-8 decoding (\<^verbatim>\<open>TextDecoder.decode\<close>,
  \<^verbatim>\<open>Blob.text\<close>; it replaces malformed input and never throws),
  \<^verbatim>\<open>URL.createObjectURL\<close> on a new \<^verbatim>\<open>Blob\<close> of the given bytes (a URL, or
  a throw where the function is missing), and the text of a number.
\<close>

record browser = js_runtime +
  utf8_decode :: "byte list \<Rightarrow> string"
  createObjectURL :: "byte list \<Rightarrow> js_error + string"
  number_text :: "rat \<Rightarrow> string"

text \<open>
  The result object; the last three fields are present for binary frames only. \<open>raw\<close>
  is declared a string; it holds what the branch puts there, which in the object branch is
  the result of \<^verbatim>\<open>JSON.stringify\<close>, a text or \<^verbatim>\<open>undefined\<close> (\<open>None\<close>).
\<close>

record normalized =
  parsed :: js_value
  isJson :: bool
  raw :: "string option"
  isBinary :: "bool option"
  n_url :: "string option"
  n_size :: "nat option"

text \<open>The object literal \<^verbatim>\<open>{ parsed, isJson, raw }\<close>.\<close>

definition result3 :: "js_value \<Rightarrow> bool \<Rightarrow> string option \<Rightarrow> normalized" where
  "result3 p j r =
     \<lparr> parsed = p, isJson = j, raw = r, isBinary = None, n_url = None, n_size = None \<rparr>"

text \<open>
  The object literal
  \<^verbatim>\<open>{ parsed: { binary: true }, isJson: false, raw: '', isBinary: true, url, size }\<close>.
\<close>

definition binary_result :: "string \<Rightarrow> nat \<Rightarrow> normalized" where
  "binary_result u n =
     \<lparr> parsed = JObj [(''binary'', JBool True)], isJson = False, raw = Some [],
       isBinary = Some True, n_url = Some u, n_size = Some n \<rparr>"

text \<open>\<^verbatim>\<open>b === 9 || b === 10 || b === 13 || (b >= 32 && b <= 126)\<close>\<close>

definition printable_byte :: "byte \<Rightarrow> bool" where
  "printable_byte b = (b = 9 \<or> b = 10 \<or> b = 13 \<or> (32 \<le> b \<and> b \<le> 126))"

text \<open>
  The counting loop
  \<^verbatim>\<open>for (let i = 0; i < Math.min(512, bytes.length); i++) { ... printable++ }\<close>,
  run on the bytes it visits, with the counter as accumulator.
\<close>

fun count_loop :: "byte list \<Rightarrow> nat \<Rightarrow> nat" where
  "count_loop [] printable = printable"
| "count_loop (b # bs) printable =
     count_loop bs (if printable_byte b then printable + 1 else printable)"

definition printable_count :: "byte list \<Rightarrow> nat" where
  "printable_count bytes = count_loop (take (min 512 (length bytes)) bytes) 0"

text \<open>
  \<^verbatim>\<open>const ratio = printable / Math.min(512, bytes.length || 1)\<close>, as an exact
  fraction. The source computes it in double precision and tests \<^verbatim>\<open>ratio > 0.6\<close>.
  Numerator and denominator are integers up to 512, so a quotient other than 3/5 differs
  from 3/5 by at least 1/2560, far more than the rounding of the division and of the
  literal; and 3/5 itself rounds to the same double as the literal \<^verbatim>\<open>0.6\<close>. The test
  on doubles therefore has the same outcome as the exact test \<open>3/5 < ratio\<close>.
\<close>

definition ratio :: "byte list \<Rightarrow> rat" where
  "ratio bytes =
     of_nat (printable_count bytes) /
     of_nat (min 512 (if length bytes = 0 then 1 else length bytes))"

text \<open>\<^verbatim>\<open>Array.prototype.join\<close> with a comma, on the texts of the elements.\<close>

fun join_comma :: "string list \<Rightarrow> string" where
  "join_comma [] = []"
| "join_comma [s] = s"
| "join_comma (s # t # ss) = s @ '','' @ join_comma (t # ss)"

text \<open>
  The results of a list of conversions, in order: the first throw, or all the texts.
\<close>

fun collect :: "(js_error + 'a) list \<Rightarrow> js_error + 'a list" where
  "collect [] = Inr []"
| "collect (Inl e # rs) = Inl e"
| "collect (Inr x # rs) = (case collect rs of Inl e \<Rightarrow> Inl e | Inr xs \<Rightarrow> Inr (x # xs))"

definition not_primitive :: js_error where
  "not_primitive = RuntimeError ''TypeError: Cannot convert object to primitive value''"

text \<open>
  The conversion of a value to a string, \<^verbatim>\<open>String(v)\<close> and \<^verbatim>\<open>`${v}`\<close>. An array
  is joined with commas, \<^verbatim>\<open>null\<close> and \<^verbatim>\<open>undefined\<close> elements giving the empty
  text. An object is converted by its \<^verbatim>\<open>toString\<close>: the inherited one gives
  \<^verbatim>\<open>[object Object]\<close>; an own property \<^verbatim>\<open>toString\<close> hides it, and since no value
  of the model is callable, neither it nor \<^verbatim>\<open>valueOf\<close> yields a primitive value and
  the conversion throws a \<^verbatim>\<open>TypeError\<close>.
\<close>

fun String_of :: "'r browser_scheme \<Rightarrow> js_value \<Rightarrow> js_error + string" where
  "String_of env JUndefined = Inr ''undefined''"
| "String_of env JNull = Inr ''null''"
| "String_of env (JBool b) = Inr (if b then ''true'' else ''false'')"
| "String_of env (JNum n) = Inr (number_text env n)"
| "String_of env (JStr s) = Inr s"
| "String_of env (JArr xs) =
     (case collect (map (\<lambda>x. if x = JUndefined \<or> x = JNull then Inr [] else String_of env x) xs) of
        Inl e \<Rightarrow> Inl e
      | Inr texts \<Rightarrow> Inr (join_comma texts))"
| "String_of env (JObj kvs) =
     (if map_of kvs ''toString'' \<noteq> None then Inl not_primitive else Inr ''[object Object]'')"
| "String_of env (JToJSON v) = Inr ''[object Object]''"

text \<open>\<^verbatim>\<open>typeof data === 'object'\<close> for a value that is neither a Blob nor an ArrayBuffer.\<close>

fun typeof_object :: "js_value \<Rightarrow> bool" where
  "typeof_object JNull = True"
| "typeof_object (JArr _) = True"
| "typeof_object (JObj _) = True"
| "typeof_object (JToJSON _) = True"
| "typeof_object _ = False"

text \<open>\<^verbatim>\<open>data.slice(0, 256).text()\<close> and \<^verbatim>\<open>data.arrayBuffer()\<close>.\<close>

fun slice_text :: "'r browser_scheme \<Rightarrow> blob \<Rightarrow> string promise" where
  "slice_text env (Blob (Fulfilled bytes)) = Fulfilled (utf8_decode env (take 256 bytes))"
| "slice_text env (Blob (Rejected e)) = Rejected e"

fun arrayBuffer :: "blob \<Rightarrow> byte list promise" where
  "arrayBuffer (Blob p) = p"

text \<open>
  The statements inside the outer \<^verbatim>\<open>try\<close> block of \<^verbatim>\<open>normalizeWsData\<close>, in
  the order of the source: string, Blob, ArrayBuffer, object, anything else. Each inner
  \<^verbatim>\<open>try { return ... JSON.parse(t) ... } catch { ... }\<close> is the case distinction on
  \<open>JSON_parse\<close>. A throw that no inner block catches (an awaited read that rejects,
  \<^verbatim>\<open>createObjectURL\<close>, \<^verbatim>\<open>JSON.stringify\<close>, \<^verbatim>\<open>String\<close>) completes the
  body with \<open>Inl\<close>. The object branch stores the result of \<^verbatim>\<open>JSON.stringify\<close> as
  it is.
\<close>

fun normalize_body :: "'r browser_scheme \<Rightarrow> ws_data \<Rightarrow> js_error + normalized" where
  "normalize_body env (Value (JStr s)) =
     (case JSON_parse env s of
        Some v \<Rightarrow> Inr (result3 v True (Some s))
      | None \<Rightarrow> Inr (result3 (JStr s) False (Some s)))"
| "normalize_body env (BlobData data) =
     (case await (slice_text env data) of
        Inl e \<Rightarrow> Inl e
      | Inr text \<Rightarrow>
          (case JSON_parse env text of
             Some v \<Rightarrow> Inr (result3 v True (Some text))
           | None \<Rightarrow>
               (case await (arrayBuffer data) of
                  Inl e \<Rightarrow> Inl e
                | Inr fullArrayBuffer \<Rightarrow>
                    (case createObjectURL env fullArrayBuffer of
                       Inl e \<Rightarrow> Inl e
                     | Inr u \<Rightarrow> Inr (binary_result u (length fullArrayBuffer))))))"
| "normalize_body env (ArrayBufferData bytes) =
     (if ratio bytes > 6 / 10 then
        (let text = utf8_decode env bytes in
         case JSON_parse env text of
           Some v \<Rightarrow> Inr (result3 v True (Some text))
         | None \<Rightarrow> Inr (result3 (JStr text) False (Some text)))
      else
        (case createObjectURL env bytes of
           Inl e \<Rightarrow> Inl e
         | Inr u \<Rightarrow> Inr (binary_result u (length bytes))))"
| "normalize_body env (Value data) =
     (if typeof_object data then
        (case JSON_stringify env data of
           Inl e \<Rightarrow> Inl e
         | Inr r \<Rightarrow> Inr (result3 data True r))
      else
        (case String_of env data of
           Inl e \<Rightarrow> Inl e
         | Inr fallback \<Rightarrow> Inr (result3 (JStr fallback) False (Some fallback))))"

text \<open>
  \<^verbatim>\<open>try { ... } catch (err) { return { parsed: `<unreadable binary>`, isJson: false, raw: '' }; }\<close>
\<close>

definition unreadable :: normalized where
  "unreadable = result3 (JStr ''<unreadable binary>'') False (Some [])"

definition normalizeWsData :: "'r browser_scheme \<Rightarrow> ws_data \<Rightarrow> normalized promise" where
  "normalizeWsData env data =
     async (try_catch (normalize_body env data) (\<lambda>err. Inr unreadable))"

text \<open>
  A browser for the examples: the JSON fragment above, a decoder that is right on ASCII
  bytes (every byte becomes the character of its code), and object URLs
  \<^verbatim>\<open>blob:example\<close>.
\<close>

definition browser_fragment :: browser where
  "browser_fragment =
     \<lparr> JSON_parse = parse_fragment, stringify = stringify_fragment,
       utf8_decode = map (\<lambda>b. char_of (unat b)),
       createObjectURL = (\<lambda>bytes. Inr ''blob:example''),
       number_text = (\<lambda>n. ''0'') \<rparr>"


text \<open>Five bytes, three of them printable: exactly 60 percent.\<close>

definition sixty_percent :: "byte list" where
  "sixty_percent = [65, 65, 65, 0, 0]"

text \<open>
  The outcome the specification describes for a text: attempt a JSON parse; on success the
  parsed structure with \<open>isJson\<close> set, on failure the text as it is.
\<close>

definition text_outcome :: "'r browser_scheme \<Rightarrow> string \<Rightarrow> normalized" where
  "text_outcome env text =
     (case JSON_parse env text of
        Some v \<Rightarrow> result3 v True (Some text)
      | None \<Rightarrow> result3 (JStr text) False (Some text))"



section \<open>Call monitor component (VapiCallMonitor)\<close>

text \<open>Decimal text of a number, as a template literal prints it.\<close>

fun show_nat :: "nat \<Rightarrow> string" where
  "show_nat n =
     (if n < 10 then [char_of (48 + n)]
      else show_nat (n div 10) @ [char_of (48 + n mod 10)])"

declare show_nat.simps [simp del]

text \<open>\<^verbatim>\<open>`${err}`\<close> for an error object.\<close>

fun error_text :: "js_error \<Rightarrow> string" where
  "error_text (HttpError st t) = ''Error: HTTP '' @ show_nat st @ '': '' @ t"
| "error_text CredentialUpdateUnsupported =
     ''Error: Credential updates are not supported by VAPI API. Please delete and recreate the credential instead.''"
| "error_text (RuntimeError m) = m"

datatype msg_source = listen | poll

record WebSocketMessage =
  m_type :: string
  m_data :: js_value
  timestamp :: string
  source :: msg_source

record WebSocketConnection =
  c_url :: string
  c_ws :: "nat option"
  connected :: bool
  retryCount :: nat

text \<open>
  Browser objects the component holds. A WebSocket is known by a handle; its handlers are
  closures created by one call of \<^verbatim>\<open>connectWebSocket\<close>, and the record keeps what
  they captured: the URL, the handle of the connection timeout, and the value of
  \<^verbatim>\<open>wsConnection.retryCount\<close> that was in scope. \<^verbatim>\<open>wsConnection\<close> is a
  \<^verbatim>\<open>const\<close> of one render of the component: a closure reads the value of the render
  it was created in, not the current state.
\<close>

datatype ready_state = CONNECTING | OPEN | CLOSING | CLOSED

record socket =
  s_url :: string
  readyState :: ready_state
  s_timeout :: nat
  s_retryCount :: nat

text \<open>An interval timer of \<^verbatim>\<open>startPollingCall\<close>: its period and what its callback captured.\<close>

record interval =
  period_ms :: nat
  i_callId :: js_value
  i_retryCount :: nat

text \<open>
  A pending \<^verbatim>\<open>setTimeout\<close>: the connection timeout of a socket, or the retry
  scheduled by \<^verbatim>\<open>ws.onclose\<close> with the URL and the retry count it captured.
\<close>

datatype timeout_action = ConnectionTimeout nat | RetryConnect string nat

record timeout =
  delay_ms :: nat
  action :: timeout_action

text \<open>
  The state of the component: the React state (\<open>wsMessages\<close>, \<open>wsConnection\<close>,
  \<open>currentCall\<close>), the two refs, and the browser resources it has created. Timer and
  socket handles are positive and fresh, drawn from \<open>last_handle\<close>. \<open>clock\<close> is the
  reading of the clock (\<^verbatim>\<open>new Date().toISOString()\<close>); the environment owns it and
  no handler writes it.
\<close>

record monitor =
  wsMessages :: "WebSocketMessage list"
  wsConnection :: WebSocketConnection
  currentCall :: js_value
  listenWsRef :: "nat option"
  pollRef :: "nat option"
  clock :: string
  intervals :: "(nat \<times> interval) list"
  timeouts :: "(nat \<times> timeout) list"
  sockets :: "(nat \<times> socket) list"
  last_handle :: nat

definition initial :: monitor where
  "initial =
     \<lparr> wsMessages = [],
       wsConnection = \<lparr> c_url = [], c_ws = None, connected = False, retryCount = 0 \<rparr>,
       currentCall = JNull,
       listenWsRef = None,
       pollRef = None,
       clock = [],
       intervals = [],
       timeouts = [],
       sockets = [],
       last_handle = 0 \<rparr>"

text \<open>
  The page: the browser functions of the normalizer and the \<^verbatim>\<open>WebSocket\<close>
  constructor, which throws on a URL it does not accept.
\<close>

record page = browser +
  WebSocket_throws :: "string \<Rightarrow> js_error option"

text \<open>\<^verbatim>\<open>xs.slice(-n)\<close> for positive \<open>n\<close>: the last \<open>n\<close> elements.\<close>

definition slice_last :: "nat \<Rightarrow> 'a list \<Rightarrow> 'a list" where
  "slice_last n xs = drop (length xs - n) xs"

text \<open>
  \<^verbatim>\<open>addWsMessage(type, data, source)\<close>:
  \<^verbatim>\<open>setWsMessages(prev => [...prev, message].slice(-100))\<close>. It is the only writer of
  \<open>wsMessages\<close>.
\<close>

definition addWsMessage :: "string \<Rightarrow> js_value \<Rightarrow> msg_source \<Rightarrow> monitor \<Rightarrow> monitor" where
  "addWsMessage type data src s =
     s \<lparr> wsMessages :=
           slice_last 100
             (wsMessages s @
              [\<lparr> m_type = type, m_data = data, timestamp = clock s, source = src \<rparr>]) \<rparr>"

text \<open>
  A sequence of appended messages, each at its own clock reading, run in order.
\<close>

fun add_all :: "(string \<times> string \<times> js_value \<times> msg_source) list \<Rightarrow> monitor \<Rightarrow> monitor" where
  "add_all [] s = s"
| "add_all ((t, type, data, src) # ms) s = add_all ms (addWsMessage type data src (s \<lparr> clock := t \<rparr>))"

definition messages_of :: "(string \<times> string \<times> js_value \<times> msg_source) list \<Rightarrow> WebSocketMessage list" where
  "messages_of ms =
     map (\<lambda>(t, type, data, src). \<lparr> m_type = type, m_data = data, timestamp = t, source = src \<rparr>) ms"

text \<open>\<^verbatim>\<open>clearInterval\<close>, \<^verbatim>\<open>clearTimeout\<close>, and \<^verbatim>\<open>ws.close()\<close>.\<close>

definition clearInterval :: "nat \<Rightarrow> monitor \<Rightarrow> monitor" where
  "clearInterval h s = s \<lparr> intervals := filter (\<lambda>(k, i). k \<noteq> h) (intervals s) \<rparr>"

definition clearTimeout :: "nat \<Rightarrow> monitor \<Rightarrow> monitor" where
  "clearTimeout h s = s \<lparr> timeouts := filter (\<lambda>(k, t). k \<noteq> h) (timeouts s) \<rparr>"

definition set_readyState :: "nat \<Rightarrow> ready_state \<Rightarrow> monitor \<Rightarrow> monitor" where
  "set_readyState w st s =
     s \<lparr> sockets := map (\<lambda>(k, x). if k = w then (k, x \<lparr> readyState := st \<rparr>) else (k, x)) (sockets s) \<rparr>"

definition ws_close :: "nat \<Rightarrow> monitor \<Rightarrow> monitor" where
  "ws_close w s =
     (case map_of (sockets s) w of
        None \<Rightarrow> s
      | Some x \<Rightarrow>
          if readyState x = CONNECTING \<or> readyState x = OPEN then set_readyState w CLOSING s
          else s)"

text \<open>
  \<^verbatim>\<open>stopPollingCall\<close>: \<^verbatim>\<open>if (pollRef.current) { clearInterval(pollRef.current); pollRef.current = null; addWsMessage(...) }\<close>.
  A handle is truthy when it is not 0.
\<close>

definition stopPollingCall :: "monitor \<Rightarrow> monitor" where
  "stopPollingCall s =
     (case pollRef s of
        None \<Rightarrow> s
      | Some h \<Rightarrow>
          if h \<noteq> 0 then
            addWsMessage ''poll'' (JStr ''Stopped polling for call updates'') poll
              ((clearInterval h s) \<lparr> pollRef := None \<rparr>)
          else s)"

text \<open>
  A function of the component that can throw part way returns the error thrown, if any,
  and the state it has reached; statements after a throw do not run.
\<close>

definition and_then ::
  "js_error option \<times> monitor \<Rightarrow> (monitor \<Rightarrow> js_error option \<times> monitor) \<Rightarrow> js_error option \<times> monitor" where
  "and_then r rest = (case r of (Some e, s) \<Rightarrow> (Some e, s) | (None, s) \<Rightarrow> rest s)"

text \<open>
  \<^verbatim>\<open>startPollingCall(callId)\<close>: stop the running poller, log, and create the interval
  timer with period 3000 ms. The argument is read from a response and may be any value;
  the log entry needs its text, and the conversion can throw, after the running poller
  has been stopped. The third argument is the \<^verbatim>\<open>wsConnection.retryCount\<close> in scope
  where the function is called.
\<close>

definition startPollingCall ::
  "'r page_scheme \<Rightarrow> js_value \<Rightarrow> nat \<Rightarrow> monitor \<Rightarrow> js_error option \<times> monitor" where
  "startPollingCall env callId rc s =
     (let s1 = stopPollingCall s
      in case String_of env callId of
           Inl e \<Rightarrow> (Some e, s1)
         | Inr text \<Rightarrow>
             (let s2 = addWsMessage ''poll'' (JStr (''Starting polling for call '' @ text)) poll s1;
                  h = Suc (last_handle s2)
              in (None,
                  s2 \<lparr> pollRef := Some h,
                       intervals := intervals s2 @
                         [(h, \<lparr> period_ms = 3000, i_callId = callId, i_retryCount = rc \<rparr>)],
                       last_handle := h \<rparr>)))"

text \<open>\<^verbatim>\<open>disconnectWebSockets\<close>.\<close>

definition disconnectWebSockets :: "monitor \<Rightarrow> monitor" where
  "disconnectWebSockets s =
     (let s1 = (case listenWsRef s of
                  None \<Rightarrow> s
                | Some w \<Rightarrow> (ws_close w s) \<lparr> listenWsRef := None \<rparr>)
      in s1 \<lparr> wsConnection := (wsConnection s1) \<lparr> connected := False, retryCount := 0 \<rparr> \<rparr>)"

text \<open>
  \<^verbatim>\<open>connectWebSocket(wsUrl)\<close>, in a scope where \<^verbatim>\<open>wsConnection.retryCount\<close> is
  \<open>rc\<close>. The whole body is a \<^verbatim>\<open>try\<close> block whose \<^verbatim>\<open>catch\<close> logs the error:
  a throw of the conversion of \<open>wsUrl\<close> to text in the first log entry, or of the
  constructor. Otherwise the socket is stored in the ref, the state is updated with
  \<^verbatim>\<open>retryCount: 0\<close>, the connection timeout of 10 s is set, and the handlers are
  installed: they are the functions \<open>ws_onopen\<close>, \<open>ws_onclose\<close>, \<open>ws_onerror\<close>,
  \<open>ws_onmessage\<close> and \<open>connection_timeout\<close> below, with the text of \<open>wsUrl\<close> and
  \<open>rc\<close> kept in the socket record.
\<close>

definition connectWebSocket :: "'r page_scheme \<Rightarrow> js_value \<Rightarrow> nat \<Rightarrow> monitor \<Rightarrow> monitor" where
  "connectWebSocket env wsUrl rc s =
     (case String_of env wsUrl of
        Inl error \<Rightarrow>
          addWsMessage ''error''
            (JStr (''Failed to create listen WebSocket connection: '' @ error_text error)) listen s
      | Inr url \<Rightarrow>
          (let s1 = addWsMessage ''connection'' (JStr (''Connecting to listen WebSocket: '' @ url)) listen s
           in case WebSocket_throws env url of
                Some error \<Rightarrow>
                  addWsMessage ''error''
                    (JStr (''Failed to create listen WebSocket connection: '' @ error_text error)) listen s1
              | None \<Rightarrow>
                  (let ws = Suc (last_handle s1);
                       connectionTimeout = Suc ws
                   in s1 \<lparr> listenWsRef := Some ws,
                           wsConnection := (wsConnection s1) \<lparr> c_url := url, c_ws := Some ws, retryCount := 0 \<rparr>,
                           sockets := sockets s1 @
                             [(ws, \<lparr> s_url = url, readyState = CONNECTING,
                                     s_timeout = connectionTimeout, s_retryCount = rc \<rparr>)],
                           timeouts := timeouts s1 @
                             [(connectionTimeout, \<lparr> delay_ms = 10000, action = ConnectionTimeout ws \<rparr>)],
                           last_handle := connectionTimeout \<rparr>)))"

text \<open>
  \<^verbatim>\<open>connectWebSockets(listenUrl?, controlUrl?)\<close>. The arguments are read from a
  response and may be any value. The log entry for the control URL is outside any
  \<^verbatim>\<open>try\<close> block: when the conversion of \<open>controlUrl\<close> to text throws, the function
  throws, after the channel has been closed and reopened.
\<close>

definition connectWebSockets ::
  "'r page_scheme \<Rightarrow> js_value \<Rightarrow> js_value \<Rightarrow> nat \<Rightarrow> monitor \<Rightarrow> js_error option \<times> monitor" where
  "connectWebSockets env listenUrl controlUrl rc s =
     (let s1 = disconnectWebSockets s;
          s2 = (if truthy listenUrl then connectWebSocket env listenUrl rc s1 else s1)
      in if truthy controlUrl then
           (case String_of env controlUrl of
              Inl e \<Rightarrow> (Some e, s2)
            | Inr text \<Rightarrow>
                (None,
                 addWsMessage ''info''
                   (JStr (''Control URL provided (not opened in browser): '' @ text)) listen s2))
         else (None, s2))"

text \<open>\<^verbatim>\<open>setWsConnection(prev => ({ ...prev, connected: b }))\<close>.\<close>

definition set_connected :: "bool \<Rightarrow> monitor \<Rightarrow> monitor" where
  "set_connected b s = s \<lparr> wsConnection := (wsConnection s) \<lparr> connected := b \<rparr> \<rparr>"

text \<open>\<^verbatim>\<open>ws.onopen\<close> of socket \<open>w\<close>.\<close>

definition ws_onopen :: "nat \<Rightarrow> monitor \<Rightarrow> monitor" where
  "ws_onopen w s =
     (case map_of (sockets s) w of
        None \<Rightarrow> s
      | Some x \<Rightarrow>
          addWsMessage ''connection'' (JStr ''Listen WebSocket connected successfully'') listen
            (set_connected True (clearTimeout (s_timeout x) s)))"

text \<open>
  \<^verbatim>\<open>ws.onclose\<close> of socket \<open>w\<close>, for a close event with its \<^verbatim>\<open>wasClean\<close>,
  \<^verbatim>\<open>code\<close> and \<^verbatim>\<open>reason\<close>. The retry test and the delay read
  \<^verbatim>\<open>wsConnection.retryCount\<close> of the scope the handler was created in, which is
  \<open>s_retryCount\<close> of the socket; the scheduled callback keeps the same scope.
\<close>

definition ws_onclose :: "nat \<Rightarrow> bool \<Rightarrow> nat \<Rightarrow> string \<Rightarrow> monitor \<Rightarrow> monitor" where
  "ws_onclose w wasClean code reason s =
     (case map_of (sockets s) w of
        None \<Rightarrow> s
      | Some x \<Rightarrow>
          (let s1 = set_connected False (clearTimeout (s_timeout x) s)
           in if wasClean then
                addWsMessage ''connection''
                  (JStr (''Listen WebSocket disconnected cleanly (code: '' @ show_nat code @ '')'')) listen s1
              else
                (let s2 = addWsMessage ''connection''
                            (JStr (''Listen WebSocket disconnected unexpectedly (code: '' @ show_nat code @
                                   '', reason: '' @ reason @ '')'')) listen s1
                 in if s_retryCount x < 3 then
                      (let retryDelay = 2 ^ s_retryCount x * 1000;
                           h = Suc (last_handle s2)
                       in s2 \<lparr> timeouts := timeouts s2 @
                                  [(h, \<lparr> delay_ms = retryDelay,
                                         action = RetryConnect (s_url x) (s_retryCount x) \<rparr>)],
                                last_handle := h \<rparr>)
                    else s2)))"

text \<open>
  The callback scheduled by \<^verbatim>\<open>ws.onclose\<close>:
  \<^verbatim>\<open>addWsMessage(...); setWsConnection(prev => ({ ...prev, retryCount: prev.retryCount + 1 })); connectWebSocket(wsUrl);\<close>
  It passes the \<open>wsUrl\<close> of the socket that closed. That socket was created, so the
  conversion of \<open>wsUrl\<close> gave the text kept in its record, and gives it again.
\<close>

definition retry_callback :: "'r page_scheme \<Rightarrow> string \<Rightarrow> nat \<Rightarrow> monitor \<Rightarrow> monitor" where
  "retry_callback env wsUrl rc s =
     (let s1 = addWsMessage ''connection''
                 (JStr (''Retrying listen connection (attempt '' @ show_nat (rc + 1) @ ''/3) in '' @
                        show_nat ((2 ^ rc * 1000) div 1000) @ ''s...'')) listen s;
          s2 = s1 \<lparr> wsConnection := (wsConnection s1) \<lparr> retryCount := retryCount (wsConnection s1) + 1 \<rparr> \<rparr>
      in connectWebSocket env (JStr wsUrl) rc s2)"

text \<open>\<^verbatim>\<open>ws.onerror\<close> of socket \<open>w\<close>; the text of an \<^verbatim>\<open>Event\<close> is \<^verbatim>\<open>[object Event]\<close>.\<close>

definition ws_onerror :: "nat \<Rightarrow> monitor \<Rightarrow> monitor" where
  "ws_onerror w s =
     (case map_of (sockets s) w of
        None \<Rightarrow> s
      | Some x \<Rightarrow>
          set_connected False
            (addWsMessage ''error'' (JStr ''Listen WebSocket error: [object Event]'') listen
               (clearTimeout (s_timeout x) s)))"

text \<open>The connection timeout callback of socket \<open>w\<close>.\<close>

definition connection_timeout :: "nat \<Rightarrow> monitor \<Rightarrow> monitor" where
  "connection_timeout w s =
     (case map_of (sockets s) w of
        None \<Rightarrow> s
      | Some x \<Rightarrow>
          if readyState x = CONNECTING then
            set_connected False
              (addWsMessage ''error'' (JStr ''Listen WebSocket connection timeout after 10 seconds'') listen
                 (ws_close w s))
          else s)"

text \<open>A pending timeout fires: it leaves the list and its callback runs.\<close>

definition fire_timeout :: "'r page_scheme \<Rightarrow> nat \<Rightarrow> monitor \<Rightarrow> monitor" where
  "fire_timeout env h s =
     (case map_of (timeouts s) h of
        None \<Rightarrow> s
      | Some t \<Rightarrow>
          (case action t of
             ConnectionTimeout w \<Rightarrow> connection_timeout w (clearTimeout h s)
           | RetryConnect wsUrl rc \<Rightarrow> retry_callback env wsUrl rc (clearTimeout h s)))"

text \<open>
  Object spread \<^verbatim>\<open>{ ...a, ...b }\<close>: the own enumerable properties of \<open>a\<close>, then
  those of \<open>b\<close>, a later value replacing an earlier one under the same key. A string
  and an array have their indices as keys; other primitives have no properties. The
  objects of the model hold data only, so the copy made here leaves out the method of an
  object with \<^verbatim>\<open>toJSON\<close>; the merged call is stored and never read by the
  handlers.
\<close>

fun own_props :: "js_value \<Rightarrow> (string \<times> js_value) list" where
  "own_props (JObj kvs) = kvs"
| "own_props (JArr xs) = zip (map show_nat [0..<length xs]) xs"
| "own_props (JStr cs) = zip (map show_nat [0..<length cs]) (map (\<lambda>c. JStr [c]) cs)"
| "own_props _ = []"

fun set_prop :: "string \<Rightarrow> js_value \<Rightarrow> (string \<times> js_value) list \<Rightarrow> (string \<times> js_value) list" where
  "set_prop k v [] = [(k, v)]"
| "set_prop k v ((k', v') # kvs) = (if k = k' then (k, v) # kvs else (k', v') # set_prop k v kvs)"

definition spread :: "js_value \<Rightarrow> js_value \<Rightarrow> js_value" where
  "spread a b = JObj (fold (\<lambda>(k, v). set_prop k v) (own_props a @ own_props b) [])"

text \<open>\<^verbatim>\<open>String(event.data)\<close>.\<close>

fun String_of_data :: "'r page_scheme \<Rightarrow> ws_data \<Rightarrow> js_error + string" where
  "String_of_data env (Value v) = String_of env v"
| "String_of_data env (BlobData b) = Inr ''[object Blob]''"
| "String_of_data env (ArrayBufferData bytes) = Inr ''[object ArrayBuffer]''"

text \<open>
  \<^verbatim>\<open>ws.onmessage\<close>, for a frame \<open>data\<close>: the frame is normalized and logged as a
  message, as a binary entry or as raw text (\<^verbatim>\<open>parsed || raw || String(event.data)\<close>,
  evaluated from the left). \<^verbatim>\<open>currentCall\<close> in the test of the status update is the
  constant of the scope in which the handler was created, the third argument here; the
  updater function reads the state. A rejection of the normalizer and a throw of
  \<^verbatim>\<open>String\<close> are logged by the \<^verbatim>\<open>catch\<close> callback.
\<close>

definition ws_onmessage :: "'r page_scheme \<Rightarrow> ws_data \<Rightarrow> js_value \<Rightarrow> monitor \<Rightarrow> monitor" where
  "ws_onmessage env data call_in_scope s =
     (case normalizeWsData env data of
        Rejected err \<Rightarrow>
          addWsMessage ''error''
            (JStr (''Failed to parse incoming WS message: '' @ error_text err)) listen s
      | Fulfilled r \<Rightarrow>
          if isJson r \<and> truthy (parsed r) then
            (let s1 = addWsMessage ''message'' (parsed r) listen s
             in if get_prop (parsed r) ''type'' = JStr ''status-update'' \<and> truthy call_in_scope then
                  s1 \<lparr> currentCall :=
                         (if truthy (currentCall s1)
                          then spread (currentCall s1) (get_prop (parsed r) ''call'')
                          else JNull) \<rparr>
                else s1)
          else if isBinary r = Some True then
            addWsMessage ''raw''
              (JObj [(''binary'', JBool True),
                     (''url'', case n_url r of None \<Rightarrow> JUndefined | Some u \<Rightarrow> JStr u),
                     (''size'', case n_size r of None \<Rightarrow> JUndefined | Some n \<Rightarrow> JNum (of_nat n))])
              listen s
          else if truthy (parsed r) then addWsMessage ''raw'' (parsed r) listen s
          else if raw r \<noteq> None \<and> raw r \<noteq> Some [] then
            addWsMessage ''raw'' (case raw r of Some t \<Rightarrow> JStr t | None \<Rightarrow> JUndefined) listen s
          else
            (case String_of_data env data of
               Inl err \<Rightarrow>
                 addWsMessage ''error''
                   (JStr (''Failed to parse incoming WS message: '' @ error_text err)) listen s
             | Inr text \<Rightarrow> addWsMessage ''raw'' (JStr text) listen s))"

text \<open>
  \<^verbatim>\<open>['ended', 'completed', 'failed'].includes(updated.status)\<close>, and the text of such
  a status.
\<close>

definition terminal_status :: "js_value \<Rightarrow> bool" where
  "terminal_status st = (st \<in> set [JStr ''ended'', JStr ''completed'', JStr ''failed''])"

text \<open>
  The statements of the \<^verbatim>\<open>try\<close> block of the polling callback that follow
  \<^verbatim>\<open>await vapiService.getCall(callId)\<close>, for the value \<open>updated\<close>: log it, store it
  as the current call; when a monitor URL is present, log, call
  \<^verbatim>\<open>connectWebSockets\<close> and then \<^verbatim>\<open>stopPollingCall\<close>; when the status is
  terminal, log and call \<^verbatim>\<open>stopPollingCall\<close>. A throw of \<^verbatim>\<open>connectWebSockets\<close>
  or of a conversion to text ends the block there.
\<close>

definition poll_try_block ::
  "'r page_scheme \<Rightarrow> js_value \<Rightarrow> nat \<Rightarrow> js_value \<Rightarrow> monitor \<Rightarrow> js_error option \<times> monitor" where
  "poll_try_block env callId rc updated s =
     (let s1 = addWsMessage ''poll'' (JObj [(''callId'', callId), (''updated'', updated)]) poll s;
          s2 = s1 \<lparr> currentCall := updated \<rparr>;
          monitor = opt_prop updated ''monitor''
      in and_then
           (if truthy (js_or (opt_prop monitor ''listenUrl'') (opt_prop monitor ''controlUrl'')) then
              and_then
                (connectWebSockets env (get_prop monitor ''listenUrl'') (get_prop monitor ''controlUrl'') rc
                   (addWsMessage ''connection'' (JStr ''Discovered monitor URLs via polling'') poll s2))
                (\<lambda>s'. (None, stopPollingCall s'))
            else (None, s2))
           (\<lambda>s3. if truthy (opt_prop updated ''status'') \<and> terminal_status (opt_prop updated ''status'') then
                   (case String_of env callId of
                      Inl e \<Rightarrow> (Some e, s3)
                    | Inr id_text \<Rightarrow>
                        (case String_of env (opt_prop updated ''status'') of
                           Inl e \<Rightarrow> (Some e, s3)
                         | Inr status_text \<Rightarrow>
                             (None,
                              stopPollingCall
                                (addWsMessage ''poll''
                                   (JStr (''Call '' @ id_text @ '' ended with status '' @
                                          status_text @ '', stopping poll'')) poll s3))))
                 else (None, s3)))"

text \<open>
  The \<^verbatim>\<open>catch\<close> block of the polling callback: it logs the error with the text of
  the call id. When that conversion throws, the callback ends with the throw and nothing
  is logged.
\<close>

definition poll_catch :: "'r page_scheme \<Rightarrow> js_value \<Rightarrow> js_error \<Rightarrow> monitor \<Rightarrow> monitor" where
  "poll_catch env callId err s =
     (case String_of env callId of
        Inl e \<Rightarrow> s
      | Inr id_text \<Rightarrow>
          addWsMessage ''error''
            (JStr (''Polling error for call '' @ id_text @ '': '' @ error_text err)) poll s)"

text \<open>
  The callback of the polling interval, from the point where the promise of
  \<^verbatim>\<open>vapiService.getCall(callId)\<close> settles: a rejection is thrown at the
  \<^verbatim>\<open>await\<close>, a value runs the rest of the \<^verbatim>\<open>try\<close> block.
\<close>

definition poll_result :: "'r page_scheme \<Rightarrow> js_value \<Rightarrow> nat \<Rightarrow> js_value promise \<Rightarrow> monitor \<Rightarrow> monitor" where
  "poll_result env callId rc outcome s =
     (case (case await outcome of
              Inl err \<Rightarrow> (Some err, s)
            | Inr updated \<Rightarrow> poll_try_block env callId rc updated s) of
        (Some err, s') \<Rightarrow> poll_catch env callId err s'
      | (None, s') \<Rightarrow> s')"

text \<open>
  One tick of the interval: the callback requests \<^verbatim>\<open>GET /call/{callId}\<close> through the
  API client and continues with the outcome. \<^verbatim>\<open>getCall\<close> builds the endpoint from
  the text of the call id; a throw of that conversion rejects its promise.
\<close>

definition poll_tick ::
  "'r page_scheme \<Rightarrow> platform \<Rightarrow> VapiService \<Rightarrow> js_value \<Rightarrow> nat \<Rightarrow> monitor \<Rightarrow> monitor" where
  "poll_tick env net svc callId rc s =
     poll_result env callId rc
       (case String_of env callId of
          Inl e \<Rightarrow> Rejected e
        | Inr id_text \<Rightarrow> getCall env net svc id_text) s"

text \<open>
  \<^verbatim>\<open>makeCall\<close> and \<^verbatim>\<open>makeManualCall\<close>, from the point where the call has been
  created: store the response; with a listen URL open the channel, otherwise with an id
  start polling. A throw (reading \<^verbatim>\<open>response.monitor\<close> of \<^verbatim>\<open>null\<close> or
  \<^verbatim>\<open>undefined\<close>, or inside \<^verbatim>\<open>connectWebSockets\<close> or \<^verbatim>\<open>startPollingCall\<close>)
  lands in the \<^verbatim>\<open>catch\<close> block, which only alerts: the state stays as the throw left
  it.
\<close>

definition call_response :: "'r page_scheme \<Rightarrow> js_value \<Rightarrow> nat \<Rightarrow> monitor \<Rightarrow> monitor" where
  "call_response env response rc s =
     (let s1 = s \<lparr> currentCall := response \<rparr>
      in if response = JNull \<or> response = JUndefined then s1
         else if truthy (opt_prop (get_prop response ''monitor'') ''listenUrl'') then
           snd (connectWebSockets env (get_prop (get_prop response ''monitor'') ''listenUrl'')
                  (get_prop (get_prop response ''monitor'') ''controlUrl'') rc s1)
         else if truthy (get_prop response ''id'') then
           snd (startPollingCall env (get_prop response ''id'') rc s1)
         else s1)"

text \<open>The cleanup of the component: \<^verbatim>\<open>disconnectWebSockets(); stopPollingCall();\<close>\<close>

definition unmount :: "monitor \<Rightarrow> monitor" where
  "unmount s = stopPollingCall (disconnectWebSockets s)"

text \<open>
  What can happen to the component. A socket event carries the handle of the socket; the
  browser sets the ready state before it calls the handler. A response and a poll outcome
  carry the retry count of the scope of their callback, a frame the current call of the
  scope of the message handler. An interval timer that fires runs the polling callback
  with what it captured, against the platform as it answers then; \<open>PollResult\<close> is the
  outcome of a request that settles on its own, whatever has happened to its timer since.
\<close>

datatype event =
    CallResponse js_value nat
  | IntervalFired nat platform VapiService
  | PollResult js_value nat "js_value promise"
  | SocketOpened nat
  | SocketClosed nat bool nat string
  | SocketError nat
  | SocketMessage ws_data js_value
  | TimeoutFired nat
  | ClockReads string
  | Unmount

fun step :: "'r page_scheme \<Rightarrow> event \<Rightarrow> monitor \<Rightarrow> monitor" where
  "step env (CallResponse response rc) s = call_response env response rc s"
| "step env (IntervalFired h net svc) s =
     (case map_of (intervals s) h of
        None \<Rightarrow> s
      | Some i \<Rightarrow> poll_tick env net svc (i_callId i) (i_retryCount i) s)"
| "step env (PollResult callId rc outcome) s = poll_result env callId rc outcome s"
| "step env (SocketOpened w) s = ws_onopen w (set_readyState w OPEN s)"
| "step env (SocketClosed w wasClean code reason) s =
     ws_onclose w wasClean code reason (set_readyState w CLOSED s)"
| "step env (SocketError w) s = ws_onerror w s"
| "step env (SocketMessage data call_in_scope) s = ws_onmessage env data call_in_scope s"
| "step env (TimeoutFired h) s = fire_timeout env h s"
| "step env (ClockReads t) s = s \<lparr> clock := t \<rparr>"
| "step env Unmount s = unmount s"

fun run :: "'r page_scheme \<Rightarrow> event list \<Rightarrow> monitor \<Rightarrow> monitor" where
  "run env [] s = s"
| "run env (e # es) s = run env es (step env e s)"



text \<open>The retries that are scheduled: delay and URL of every pending retry.\<close>

definition scheduled_retries :: "monitor \<Rightarrow> (nat \<times> string) list" where
  "scheduled_retries s =
     concat (map (\<lambda>(h, t). case action t of
                              RetryConnect u rc \<Rightarrow> [(delay_ms t, u)]
                            | ConnectionTimeout w \<Rightarrow> [])
                 (timeouts s))"

text \<open>A page for the examples: the browser fragment, and a constructor that accepts every URL.\<close>

definition page_fragment :: page where
  "page_fragment =
     \<lparr> JSON_parse = parse_fragment, stringify = stringify_fragment,
       utf8_decode = map (\<lambda>b. char_of (unat b)),
       createObjectURL = (\<lambda>bytes. Inr ''blob:example''),
       number_text = (\<lambda>n. ''0''),
       WebSocket_throws = (\<lambda>u. None) \<rparr>"

text \<open>Responses of the platform for the examples.\<close>

definition call_without_monitor :: js_value where
  "call_without_monitor = JObj [(''id'', JStr ''call_1''), (''status'', JStr ''queued'')]"

definition call_with_monitor :: js_value where
  "call_with_monitor =
     JObj [(''id'', JStr ''call_1''), (''status'', JStr ''in-progress''),
           (''monitor'', JObj [(''listenUrl'', JStr ''wss://listen'')])]"

definition call_ended :: js_value where
  "call_ended = JObj [(''id'', JStr ''call_1''), (''status'', JStr ''ended'')]"



section \<open>Invariants of the component\<close>

text \<open>
  The poller ref and the interval timers agree: without a handle in the ref there is no
  timer; with a handle in the ref, the handle is positive and its timer is the only one.
\<close>

definition poller_inv :: "monitor \<Rightarrow> bool" where
  "poller_inv s =
     (case pollRef s of
        None \<Rightarrow> intervals s = []
      | Some h \<Rightarrow> 0 < h \<and> (\<exists>i. intervals s = [(h, i)]))"

text \<open>A message is among the \<open>k\<close> most recent entries of the log.\<close>

definition recent :: "nat \<Rightarrow> WebSocketMessage \<Rightarrow> monitor \<Rightarrow> bool" where
  "recent k m s = (m \<in> set (slice_last k (wsMessages s)))"

section \<open>Example runs of the component\<close>

text \<open>
  A call whose listen socket closes uncleanly (code 1006) on every attempt: the response
  with the listen URL, then four times the close of the current socket, the first three
  followed by the retry callback that the close handler scheduled. Sockets get the
  handles 1, 4, 7 and 10; the retry timeouts the handles 3, 6 and 9.
\<close>

definition failing_run :: "event list" where
  "failing_run =
     [CallResponse call_with_monitor 0,
      SocketClosed 1 False 1006 [], TimeoutFired 3,
      SocketClosed 4 False 1006 [], TimeoutFired 6,
      SocketClosed 7 False 1006 [], TimeoutFired 9,
      SocketClosed 10 False 1006 []]"



section \<open>Properties of the webhook store\<close>

lemma push_store:
  assumes "length store \<le> MAX_EVENTS"
  shows "snd (pushWebhookEvent stored rid now store) =
     take MAX_EVENTS (make_event stored rid now # store)"
proof (cases "length store = MAX_EVENTS")
  case True
  then have "butlast (make_event stored rid now # store) =
      take MAX_EVENTS (make_event stored rid now # store)"
    by (simp add: butlast_conv_take)
  with True show ?thesis by (simp add: pushWebhookEvent_def Let_def)
next
  case False
  with assms have "length store < MAX_EVENTS" by simp
  then show ?thesis by (simp add: pushWebhookEvent_def Let_def)
qed

lemma push_all_take:
  "length store \<le> MAX_EVENTS \<Longrightarrow>
   push_all calls store = take MAX_EVENTS (rev (events_of calls) @ store)"
proof (induction calls arbitrary: store)
  case Nil
  then show ?case by (simp add: events_of_def)
next
  case (Cons c calls)
  obtain stored rid now where c: "c = (stored, rid, now)" by (cases c) auto
  let ?e = "make_event stored rid now"
  have step: "snd (pushWebhookEvent stored rid now store) = take MAX_EVENTS (?e # store)"
    using Cons.prems by (rule push_store)
  have "push_all (c # calls) store = push_all calls (take MAX_EVENTS (?e # store))"
    by (simp add: c step)
  also have "\<dots> = take MAX_EVENTS (rev (events_of calls) @ take MAX_EVENTS (?e # store))"
    by (rule Cons.IH) simp
  also have "\<dots> = take MAX_EVENTS (rev (events_of calls) @ ?e # store)"
    by (simp add: min_def)
  finally show ?case by (simp add: c events_of_def)
qed

text \<open>
  C6. Starting from a store of at most 200 entries (the module starts with the empty
  array), after any sequence of \<^verbatim>\<open>pushWebhookEvent\<close> calls the store holds at
  most 200 entries, and it is the 200 most recent events, newest first. A single call
  returns the new event and puts it at the front; when the store was full, exactly its last
  (oldest) entry is dropped, and nothing is dropped otherwise.
\<close>

theorem pushWebhookEvent_bounded_newest_first:
  "length store \<le> MAX_EVENTS \<Longrightarrow>
     length (push_all calls store) \<le> MAX_EVENTS
   \<and> push_all calls store = take MAX_EVENTS (rev (events_of calls) @ store)
   \<and> pushWebhookEvent stored rid now store =
       (make_event stored rid now,
        make_event stored rid now # (if length store = MAX_EVENTS then butlast store else store))"
proof (intro conjI)
  assume len: "length store \<le> MAX_EVENTS"
  show eq: "push_all calls store = take MAX_EVENTS (rev (events_of calls) @ store)"
    using len by (rule push_all_take)
  show "length (push_all calls store) \<le> MAX_EVENTS"
    by (simp add: eq)
  show "pushWebhookEvent stored rid now store =
       (make_event stored rid now,
        make_event stored rid now # (if length store = MAX_EVENTS then butlast store else store))"
    using len by (auto simp: pushWebhookEvent_def Let_def MAX_EVENTS_def)
qed

theorem pushWebhookEvent_bounded_newest_first_witness:
  "length ([] :: WebhookEvent list) \<le> MAX_EVENTS
   \<and> length (push_all [(example_stored, ''a1'', ''t1''), (example_stored, ''b2'', ''t2'')] [])
       \<le> MAX_EVENTS
   \<and> push_all [(example_stored, ''a1'', ''t1''), (example_stored, ''b2'', ''t2'')] [] =
       [make_event example_stored ''b2'' ''t2'', make_event example_stored ''a1'' ''t1'']
   \<and> pushWebhookEvent example_stored ''a1'' ''t1'' [] =
       (make_event example_stored ''a1'' ''t1'', [make_event example_stored ''a1'' ''t1''])
   \<and> eventType (make_event example_stored ''a1'' ''t1'') = JStr ''status-update''"
proof -
  let ?calls = "[(example_stored, ''a1'', ''t1''), (example_stored, ''b2'', ''t2'')]"
  have h: "length ([] :: WebhookEvent list) \<le> MAX_EVENTS" by simp
  note t = pushWebhookEvent_bounded_newest_first [OF h, of ?calls example_stored "''a1''" "''t1''"]
  from t have a: "length (push_all ?calls []) \<le> MAX_EVENTS" by blast
  from t have "push_all ?calls [] = take MAX_EVENTS (rev (events_of ?calls) @ [])" by blast
  then have b: "push_all ?calls [] =
      [make_event example_stored ''b2'' ''t2'', make_event example_stored ''a1'' ''t1'']"
    by (simp add: MAX_EVENTS_def events_of_def)
  from t have "pushWebhookEvent example_stored ''a1'' ''t1'' [] =
      (make_event example_stored ''a1'' ''t1'',
       make_event example_stored ''a1'' ''t1'' #
         (if length ([] :: WebhookEvent list) = MAX_EVENTS then butlast [] else []))" by blast
  then have c: "pushWebhookEvent example_stored ''a1'' ''t1'' [] =
      (make_event example_stored ''a1'' ''t1'', [make_event example_stored ''a1'' ''t1''])"
    by simp
  have d: "eventType (make_event example_stored ''a1'' ''t1'') = JStr ''status-update''"
    by (simp add: make_event_def example_stored_def js_or_def js_and_def)
  from h a b c d show ?thesis by blast
qed

section \<open>Properties of the API client\<close>


lemma list_shape:
  "async (try_catch
      (case await p of Inl e \<Rightarrow> Inl e
       | Inr response \<Rightarrow> Inr (if isArray response then response else JArr []))
      (\<lambda>error. Inr (JArr []))) =
   Fulfilled (case p of
                Fulfilled response \<Rightarrow> if isArray response then response else JArr []
              | Rejected e \<Rightarrow> JArr [])"
  by (simp add: async_def try_catch_def await_def split: promise.splits)

text \<open>
  C9. Each of the three list operations always fulfils, never rejects: with the decoded
  response when the request succeeded and the response is an array, with the empty list
  when the request failed or the decoded response is not an array.
\<close>

theorem list_operations_fall_back_to_empty:
  "getPhoneNumbers rt net svc =
     Fulfilled (case request rt net svc ''/phone-number'' no_options of
                  Fulfilled response \<Rightarrow> if isArray response then response else JArr []
                | Rejected e \<Rightarrow> JArr [])
   \<and> getAssistants rt net svc =
     Fulfilled (case request rt net svc ''/assistant'' no_options of
                  Fulfilled response \<Rightarrow> if isArray response then response else JArr []
                | Rejected e \<Rightarrow> JArr [])
   \<and> getCredentials rt net svc =
     Fulfilled (case request rt net svc ''/credential'' no_options of
                  Fulfilled response \<Rightarrow> if isArray response then response else JArr []
                | Rejected e \<Rightarrow> JArr [])"
  unfolding getPhoneNumbers_def getAssistants_def getCredentials_def list_shape
  by simp

text \<open>An example of C9: the connection to the platform fails, the view gets the empty list.\<close>

lemma getPhoneNumbers_platform_down:
  "getPhoneNumbers runtime_fragment platform_down example_service = Fulfilled (JArr [])"
  by (simp add: getPhoneNumbers_def request_def no_options_def platform_down_def
      async_def try_catch_def await_def)

lemma getCredentials_not_an_array:
  "getCredentials runtime_fragment (platform_200 (JObj [(''error'', JStr ''x'')])) example_service
     = Fulfilled (JArr [])"
  by (simp add: getCredentials_def request_def no_options_def platform_200_def ok_def
      async_def try_catch_def await_def)

text \<open>
  What \<^verbatim>\<open>updateCredential\<close> returns is the promise of the \<^verbatim>\<open>PATCH\<close> request
  itself whenever the payload can be serialised: the \<^verbatim>\<open>catch\<close> block is reached only
  by a throw of \<^verbatim>\<open>JSON.stringify\<close>.
\<close>

lemma updateCredential_follows_request:
  "JSON_stringify rt credentialData = Inr body \<Longrightarrow>
   updateCredential rt net svc credentialId credentialData =
     request rt net svc (''/credential/'' @ credentialId)
       \<lparr> opt_method = Some ''PATCH'', opt_body = body \<rparr>"
  by (simp add: updateCredential_def async_follow_def try_catch_def)

lemma updateCredential_stringify_throws:
  "JSON_stringify rt credentialData = Inl e \<Longrightarrow>
   updateCredential rt net svc credentialId credentialData = Rejected CredentialUpdateUnsupported"
  by (simp add: updateCredential_def async_follow_def try_catch_def)

lemma updateCredential_http_failure:
  assumes "JSON_stringify rt credentialData = Inr (Some b)" and "JSON_parse rt b = Some v"
    and "net \<lparr> req_method = Some ''PATCH'',
               req_url = baseUrl svc @ ''/credential/'' @ credentialId,
               req_headers = [(''Authorization'', ''Bearer '' @ apiKey svc),
                              (''Content-Type'', ''application/json'')],
               req_body = Some b \<rparr> = Fulfilled response"
    and "\<not> ok response" and "body_text response = Fulfilled errorText"
  shows "updateCredential rt net svc credentialId credentialData =
           Rejected (HttpError (status response) errorText)"
  using assms
  by (auto simp: updateCredential_follows_request request_def async_def try_catch_def await_def)

text \<open>
  C1. The platform rejects the \<^verbatim>\<open>PATCH\<close> of credential \<^verbatim>\<open>cred_1\<close> with status
  405: the caller of \<^verbatim>\<open>updateCredential\<close> receives the underlying HTTP error, not the
  error that tells it to delete and recreate the credential.
\<close>

theorem updateCredential_http_error_passes_through:
  "updateCredential runtime_fragment platform_405 example_service ''cred_1'' (JObj [])
     = Rejected (HttpError 405 ''Method Not Allowed'')
   \<and> updateCredential runtime_fragment platform_405 example_service ''cred_1'' (JObj [])
     \<noteq> Rejected CredentialUpdateUnsupported"
  by (simp add: updateCredential_def JSON_stringify_def stringify_text_def runtime_fragment_def
      parse_fragment_def request_def platform_405_def ok_def
      async_follow_def async_def try_catch_def await_def)

section \<open>Properties of the normalizer\<close>

text \<open>
  C3. A string that \<^verbatim>\<open>JSON.parse\<close> accepts is returned with \<open>isJson\<close> set, the
  parsed value of \<^verbatim>\<open>JSON.parse\<close> and the input as \<open>raw\<close>; a string that
  \<^verbatim>\<open>JSON.parse\<close> refuses is returned as it is, in \<open>parsed\<close> and in \<open>raw\<close>,
  with \<open>isJson\<close> unset.
\<close>

theorem normalizeWsData_string:
  "(JSON_parse env s = Some v \<longrightarrow>
      normalizeWsData env (Value (JStr s)) =
        Fulfilled \<lparr> parsed = v, isJson = True, raw = Some s,
                    isBinary = None, n_url = None, n_size = None \<rparr>)
   \<and> (JSON_parse env s = None \<longrightarrow>
      normalizeWsData env (Value (JStr s)) =
        Fulfilled \<lparr> parsed = JStr s, isJson = False, raw = Some s,
                    isBinary = None, n_url = None, n_size = None \<rparr>)"
  by (simp add: normalizeWsData_def async_def try_catch_def result3_def)

theorem normalizeWsData_string_witness:
  "JSON_parse browser_fragment ''{}'' = Some (JObj [])
   \<and> normalizeWsData browser_fragment (Value (JStr ''{}'')) =
        Fulfilled \<lparr> parsed = JObj [], isJson = True, raw = Some ''{}'',
                    isBinary = None, n_url = None, n_size = None \<rparr>
   \<and> JSON_parse browser_fragment ''hello'' = None
   \<and> normalizeWsData browser_fragment (Value (JStr ''hello'')) =
        Fulfilled \<lparr> parsed = JStr ''hello'', isJson = False, raw = Some ''hello'',
                    isBinary = None, n_url = None, n_size = None \<rparr>"
proof -
  have p1: "JSON_parse browser_fragment ''{}'' = Some (JObj [])"
    by (simp add: browser_fragment_def parse_fragment_def)
  have p2: "JSON_parse browser_fragment ''hello'' = None"
    by (simp add: browser_fragment_def parse_fragment_def)
  from p1 p2
    normalizeWsData_string [of browser_fragment "''{}''" "JObj []"]
    normalizeWsData_string [of browser_fragment "''hello''" "JNull"]
  show ?thesis by blast
qed

lemma count_loop_filter:
  "count_loop bs n = n + length (filter printable_byte bs)"
  by (induction bs arbitrary: n) auto

lemma printable_count_filter:
  "printable_count bytes = length (filter printable_byte (take 512 bytes))"
  by (simp add: printable_count_def count_loop_filter min_def)

lemma ratio_sixty_percent: "ratio sixty_percent = 6 / 10"
  by (simp add: ratio_def printable_count_def sixty_percent_def printable_byte_def)

text \<open>
  C4, as stated, fails on a buffer that is exactly 60 percent printable: the source tests
  \<^verbatim>\<open>ratio > 0.6\<close>, so the buffer is classified as binary, not decoded as text.
\<close>

theorem normalizeWsData_sixty_percent_is_binary:
  "6 / 10 \<le> ratio sixty_percent
   \<and> normalizeWsData browser_fragment (ArrayBufferData sixty_percent) =
       Fulfilled (binary_result ''blob:example'' 5)
   \<and> normalizeWsData browser_fragment (ArrayBufferData sixty_percent) \<noteq>
       Fulfilled (text_outcome browser_fragment (utf8_decode browser_fragment sixty_percent))"
proof -
  have r: "ratio sixty_percent = 6 / 10" by (rule ratio_sixty_percent)
  have len: "length sixty_percent = 5" by (simp add: sixty_percent_def)
  have n: "normalizeWsData browser_fragment (ArrayBufferData sixty_percent) =
       Fulfilled (binary_result ''blob:example'' 5)"
    by (simp add: normalizeWsData_def async_def try_catch_def r len browser_fragment_def)
  have "isBinary (binary_result ''blob:example'' 5) = Some True"
    by (simp add: binary_result_def)
  moreover have "isBinary (text_outcome browser_fragment t) = None" for t
    by (simp add: text_outcome_def result3_def split: option.splits)
  ultimately have "binary_result ''blob:example'' 5 \<noteq> text_outcome browser_fragment t" for t
    by (metis option.distinct(1))
  with r n show ?thesis by simp
qed

text \<open>
  C4, amended. The fraction is taken over the first \<open>min 512 (length bytes)\<close> bytes (over
  one byte for the empty buffer). A buffer whose fraction of printable bytes is strictly
  above 60 percent is decoded as UTF-8 text and gets the outcome of a text: a JSON parse is
  attempted. A buffer at or below 60 percent is classified as binary, with \<open>isBinary\<close>
  set, its byte length as size and the object URL as locator, provided the browser creates
  the object URL.
\<close>

theorem normalizeWsData_arraybuffer:
  "ratio bytes =
     of_nat (length (filter printable_byte (take 512 bytes))) /
     of_nat (max 1 (min 512 (length bytes)))
   \<and> (6 / 10 < ratio bytes \<longrightarrow>
        normalizeWsData env (ArrayBufferData bytes) =
          Fulfilled (text_outcome env (utf8_decode env bytes)))
   \<and> (ratio bytes \<le> 6 / 10 \<and> createObjectURL env bytes = Inr u \<longrightarrow>
        normalizeWsData env (ArrayBufferData bytes) =
          Fulfilled \<lparr> parsed = JObj [(''binary'', JBool True)], isJson = False, raw = Some [],
                      isBinary = Some True, n_url = Some u, n_size = Some (length bytes) \<rparr>)"
proof (intro conjI impI)
  show "ratio bytes =
     of_nat (length (filter printable_byte (take 512 bytes))) /
     of_nat (max 1 (min 512 (length bytes)))"
    by (cases bytes) (simp_all add: ratio_def printable_count_filter max_def min_def)
next
  assume "6 / 10 < ratio bytes"
  then show "normalizeWsData env (ArrayBufferData bytes) =
          Fulfilled (text_outcome env (utf8_decode env bytes))"
    by (simp add: normalizeWsData_def async_def try_catch_def text_outcome_def Let_def
        split: option.splits)
next
  assume "ratio bytes \<le> 6 / 10 \<and> createObjectURL env bytes = Inr u"
  then show "normalizeWsData env (ArrayBufferData bytes) =
          Fulfilled \<lparr> parsed = JObj [(''binary'', JBool True)], isJson = False, raw = Some [],
                      isBinary = Some True, n_url = Some u, n_size = Some (length bytes) \<rparr>"
    by (simp add: normalizeWsData_def async_def try_catch_def binary_result_def)
qed

theorem normalizeWsData_arraybuffer_witness:
  "6 / 10 < ratio [123, 125]
   \<and> normalizeWsData browser_fragment (ArrayBufferData [123, 125]) =
       Fulfilled \<lparr> parsed = JObj [], isJson = True, raw = Some ''{}'',
                   isBinary = None, n_url = None, n_size = None \<rparr>
   \<and> ratio sixty_percent \<le> 6 / 10
   \<and> createObjectURL browser_fragment sixty_percent = Inr ''blob:example''
   \<and> normalizeWsData browser_fragment (ArrayBufferData sixty_percent) =
       Fulfilled \<lparr> parsed = JObj [(''binary'', JBool True)], isJson = False, raw = Some [],
                   isBinary = Some True, n_url = Some ''blob:example'', n_size = Some 5 \<rparr>"
proof -
  have r1: "6 / 10 < ratio [123, 125]"
    by (simp add: ratio_def printable_count_def printable_byte_def)
  have r2: "ratio sixty_percent \<le> 6 / 10" by (simp add: ratio_sixty_percent)
  have u: "createObjectURL browser_fragment sixty_percent = Inr ''blob:example''"
    by (simp add: browser_fragment_def)
  have t: "text_outcome browser_fragment (utf8_decode browser_fragment [123, 125]) =
      \<lparr> parsed = JObj [], isJson = True, raw = Some ''{}'',
        isBinary = None, n_url = None, n_size = None \<rparr>"
    by (simp add: text_outcome_def browser_fragment_def parse_fragment_def result3_def
        char_of_def bit_iff_odd)
  have len: "length sixty_percent = 5" by (simp add: sixty_percent_def)
  from r1 normalizeWsData_arraybuffer [of "[123, 125]" browser_fragment]
  have "normalizeWsData browser_fragment (ArrayBufferData [123, 125]) =
      Fulfilled (text_outcome browser_fragment (utf8_decode browser_fragment [123, 125]))"
    by blast
  then have n1: "normalizeWsData browser_fragment (ArrayBufferData [123, 125]) =
      Fulfilled \<lparr> parsed = JObj [], isJson = True, raw = Some ''{}'',
                  isBinary = None, n_url = None, n_size = None \<rparr>"
    unfolding t .
  from r2 u normalizeWsData_arraybuffer [of sixty_percent browser_fragment "''blob:example''"]
  have "normalizeWsData browser_fragment (ArrayBufferData sixty_percent) =
      Fulfilled \<lparr> parsed = JObj [(''binary'', JBool True)], isJson = False, raw = Some [],
                  isBinary = Some True, n_url = Some ''blob:example'',
                  n_size = Some (length sixty_percent) \<rparr>"
    by blast
  then have n2: "normalizeWsData browser_fragment (ArrayBufferData sixty_percent) =
      Fulfilled \<lparr> parsed = JObj [(''binary'', JBool True)], isJson = False, raw = Some [],
                  isBinary = Some True, n_url = Some ''blob:example'', n_size = Some 5 \<rparr>"
    unfolding len .
  from r1 n1 r2 u n2 show ?thesis by blast
qed






section \<open>Properties of the message log\<close>

lemma slice_last_length: "length (slice_last n xs) \<le> n"
  by (simp add: slice_last_def)

lemma slice_last_short: "length xs \<le> n \<Longrightarrow> slice_last n xs = xs"
  by (simp add: slice_last_def)

lemma slice_last_nested: "slice_last n (slice_last n xs @ ys) = slice_last n (xs @ ys)"
proof (cases "length xs \<le> n")
  case True
  then show ?thesis by (simp add: slice_last_short)
next
  case False
  then show ?thesis by (simp add: slice_last_def add.commute)
qed

lemma addWsMessage_log:
  "wsMessages (addWsMessage type data src s) =
     slice_last 100 (wsMessages s @
       [\<lparr> m_type = type, m_data = data, timestamp = clock s, source = src \<rparr>])"
  by (simp add: addWsMessage_def)

lemma addWsMessage_length: "length (wsMessages (addWsMessage type data src s)) \<le> 100"
  by (simp add: addWsMessage_log slice_last_length)

lemma add_all_log:
  "length (wsMessages s) \<le> 100 \<Longrightarrow>
   wsMessages (add_all ms s) = slice_last 100 (wsMessages s @ messages_of ms)"
proof (induction ms arbitrary: s)
  case Nil
  then show ?case by (simp add: messages_of_def slice_last_short)
next
  case (Cons m ms)
  obtain t type data src where m: "m = (t, type, data, src)" by (cases m) auto
  let ?s = "addWsMessage type data src (s \<lparr> clock := t \<rparr>)"
  have "wsMessages (add_all (m # ms) s) = wsMessages (add_all ms ?s)"
    by (simp add: m)
  also have "\<dots> = slice_last 100 (wsMessages ?s @ messages_of ms)"
    by (rule Cons.IH) (rule addWsMessage_length)
  also have "\<dots> = slice_last 100 (wsMessages s @ messages_of (m # ms))"
    by (simp add: addWsMessage_log slice_last_nested m messages_of_def)
  finally show ?case .
qed

section \<open>The poller ref and the interval timers\<close>

lemma addWsMessage_frame [simp]:
  "pollRef (addWsMessage type data src s) = pollRef s"
  "intervals (addWsMessage type data src s) = intervals s"
  "listenWsRef (addWsMessage type data src s) = listenWsRef s"
  "timeouts (addWsMessage type data src s) = timeouts s"
  "sockets (addWsMessage type data src s) = sockets s"
  "last_handle (addWsMessage type data src s) = last_handle s"
  "wsConnection (addWsMessage type data src s) = wsConnection s"
  "currentCall (addWsMessage type data src s) = currentCall s"
  "clock (addWsMessage type data src s) = clock s"
  by (simp_all add: addWsMessage_def)

lemma ws_close_poll [simp]:
  "pollRef (ws_close w s) = pollRef s" "intervals (ws_close w s) = intervals s"
  "wsMessages (ws_close w s) = wsMessages s"
  by (simp_all add: ws_close_def set_readyState_def split: option.splits)

lemma disconnect_poll [simp]:
  "pollRef (disconnectWebSockets s) = pollRef s"
  "intervals (disconnectWebSockets s) = intervals s"
  "wsMessages (disconnectWebSockets s) = wsMessages s"
  by (simp_all add: disconnectWebSockets_def Let_def split: option.splits)

lemma connectWebSocket_poll [simp]:
  "pollRef (connectWebSocket env u rc s) = pollRef s"
  "intervals (connectWebSocket env u rc s) = intervals s"
  by (simp_all add: connectWebSocket_def Let_def split: option.splits sum.splits)

lemma connectWebSockets_poll [simp]:
  "pollRef (snd (connectWebSockets env l c rc s)) = pollRef s"
  "intervals (snd (connectWebSockets env l c rc s)) = intervals s"
  by (simp_all add: connectWebSockets_def Let_def split: sum.splits)

lemma misc_poll [simp]:
  "pollRef (set_connected b s) = pollRef s" "intervals (set_connected b s) = intervals s"
  "pollRef (clearTimeout h s) = pollRef s" "intervals (clearTimeout h s) = intervals s"
  "pollRef (set_readyState w st s) = pollRef s" "intervals (set_readyState w st s) = intervals s"
  by (simp_all add: set_connected_def clearTimeout_def set_readyState_def)

lemma handlers_poll [simp]:
  "pollRef (ws_onopen w s) = pollRef s" "intervals (ws_onopen w s) = intervals s"
  "pollRef (ws_onclose w wc code reason s) = pollRef s"
  "intervals (ws_onclose w wc code reason s) = intervals s"
  "pollRef (ws_onerror w s) = pollRef s" "intervals (ws_onerror w s) = intervals s"
  "pollRef (connection_timeout w s) = pollRef s" "intervals (connection_timeout w s) = intervals s"
  "pollRef (retry_callback env u rc s) = pollRef s" "intervals (retry_callback env u rc s) = intervals s"
  by (simp_all add: ws_onopen_def ws_onclose_def ws_onerror_def connection_timeout_def
      retry_callback_def Let_def split: option.splits)

lemma ws_onmessage_poll [simp]:
  "pollRef (ws_onmessage env frame c s) = pollRef s"
  "intervals (ws_onmessage env frame c s) = intervals s"
  by (simp_all add: ws_onmessage_def Let_def split: promise.splits sum.splits)

lemma fire_timeout_poll [simp]:
  "pollRef (fire_timeout env h s) = pollRef s" "intervals (fire_timeout env h s) = intervals s"
  by (simp_all add: fire_timeout_def split: option.splits timeout_action.splits)




lemma poller_inv_frame:
  "pollRef s' = pollRef s \<Longrightarrow> intervals s' = intervals s \<Longrightarrow> poller_inv s' = poller_inv s"
  by (cases "pollRef s") (simp_all add: poller_inv_def)

lemma poller_inv_simps [simp]:
  "poller_inv (addWsMessage type data src s) = poller_inv s"
  "poller_inv (snd (connectWebSockets env l c rc s)) = poller_inv s"
  "poller_inv (disconnectWebSockets s) = poller_inv s"
  "poller_inv (s \<lparr> currentCall := v \<rparr>) = poller_inv s"
  "poller_inv (s \<lparr> clock := t \<rparr>) = poller_inv s"
  "poller_inv (set_readyState w st s) = poller_inv s"
  "poller_inv (ws_onopen w s) = poller_inv s"
  "poller_inv (ws_onclose w wc code reason s) = poller_inv s"
  "poller_inv (ws_onerror w s) = poller_inv s"
  "poller_inv (fire_timeout env h s) = poller_inv s"
  "poller_inv (ws_onmessage env frame c s) = poller_inv s"
  by (rule poller_inv_frame; simp)+

text \<open>
  What every handler that appends to the log, stores the current call, reconnects and
  stops the poller preserves, the polling callback preserves.
\<close>

lemma and_then_snd:
  assumes "P (snd r)" and "\<And>s. P s \<Longrightarrow> P (snd (rest s))"
  shows "P (snd (and_then r rest))"
  using assms by (cases r) (auto simp: and_then_def split: option.splits)

lemma catch_snd:
  assumes "P (snd r)" and "\<And>e s. P s \<Longrightarrow> P (handler e s)"
  shows "P (case r of (Some e, s') \<Rightarrow> handler e s' | (None, s') \<Rightarrow> s')"
  using assms by (cases r) (auto split: option.splits)

lemma poll_try_block_preserves:
  assumes add: "\<And>type data src s. P s \<Longrightarrow> P (addWsMessage type data src s)"
    and cur: "\<And>v s. P s \<Longrightarrow> P (s \<lparr> currentCall := v \<rparr>)"
    and con: "\<And>l c s. P s \<Longrightarrow> P (snd (connectWebSockets env l c rc s))"
    and stop: "\<And>s. P s \<Longrightarrow> P (stopPollingCall s)"
    and s: "P s"
  shows "P (snd (poll_try_block env callId rc updated s))"
  unfolding poll_try_block_def Let_def
proof (rule and_then_snd [where P = P], goal_cases)
  case 1
  have p2: "P ((addWsMessage ''poll'' (JObj [(''callId'', callId), (''updated'', updated)]) poll s)
      \<lparr> currentCall := updated \<rparr>)"
    using s by (intro cur add)
  show ?case
  proof (split if_split, intro conjI impI, goal_cases)
    case 1
    show ?case
    proof (rule and_then_snd [where P = P], goal_cases)
      case 1
      show ?case using p2 by (intro con add)
    next
      case (2 s')
      then show ?case by (simp add: stop)
    qed
  next
    case 2
    show ?case using p2 by simp
  qed
next
  case (2 s3)
  then have "P (stopPollingCall (addWsMessage ''poll'' (JStr t) poll s3))" for t
    by (intro stop add)
  with 2 show ?case by (simp split: sum.splits)
qed

lemma poll_catch_preserves:
  assumes "\<And>type data src s. P s \<Longrightarrow> P (addWsMessage type data src s)" and "P s"
  shows "P (poll_catch env callId err s)"
proof (cases "String_of env callId")
  case (Inl e)
  with assms(2) show ?thesis by (simp add: poll_catch_def)
next
  case (Inr id_text)
  with assms(1) [OF assms(2)] show ?thesis by (simp add: poll_catch_def)
qed

lemma poll_result_preserves:
  assumes add: "\<And>type data src s. P s \<Longrightarrow> P (addWsMessage type data src s)"
    and cur: "\<And>v s. P s \<Longrightarrow> P (s \<lparr> currentCall := v \<rparr>)"
    and con: "\<And>l c s. P s \<Longrightarrow> P (snd (connectWebSockets env l c rc s))"
    and stop: "\<And>s. P s \<Longrightarrow> P (stopPollingCall s)"
    and s: "P s"
  shows "P (poll_result env callId rc outcome s)"
  unfolding poll_result_def
proof (rule catch_snd [where P = P], goal_cases)
  case 1
  show ?case
  proof (cases outcome)
    case (Rejected err)
    then show ?thesis using s by (simp add: await_def)
  next
    case (Fulfilled updated)
    have "P (snd (poll_try_block env callId rc updated s))"
      using add cur con stop s by (rule poll_try_block_preserves)
    with Fulfilled show ?thesis by (simp add: await_def)
  qed
next
  case (2 e s')
  show ?case by (rule poll_catch_preserves [where P = P]) (fact add, fact 2)
qed







section \<open>Messages that stay in the log\<close>








lemma recent_frame: "wsMessages s' = wsMessages s \<Longrightarrow> recent k m s' = recent k m s"
  by (simp add: recent_def)









section \<open>Properties of the poller\<close>

lemmas handler_defs =
  call_response_def poll_result_def poll_try_block_def poll_catch_def and_then_def poll_tick_def
  connectWebSockets_def connectWebSocket_def
  disconnectWebSockets_def startPollingCall_def stopPollingCall_def addWsMessage_def
  ws_onopen_def ws_onclose_def ws_onerror_def connection_timeout_def fire_timeout_def
  retry_callback_def ws_onmessage_def unmount_def clearInterval_def clearTimeout_def set_readyState_def
  ws_close_def set_connected_def slice_last_def

lemmas example_defs =
  initial_def call_without_monitor_def call_with_monitor_def call_ended_def page_fragment_def


















section \<open>The bound of the message log\<close>

lemma wsMessages_frames [simp]:
  "wsMessages (set_readyState w st s) = wsMessages s"
  "wsMessages (set_connected b s) = wsMessages s"
  "wsMessages (clearTimeout h s) = wsMessages s"
  "wsMessages (clearInterval h s) = wsMessages s"
  by (simp_all add: set_readyState_def set_connected_def clearTimeout_def clearInterval_def)

lemma log_stop: "length (wsMessages s) \<le> 100 \<Longrightarrow> length (wsMessages (stopPollingCall s)) \<le> 100"
  by (simp add: stopPollingCall_def addWsMessage_length split: option.splits)

lemma log_start:
  "length (wsMessages s) \<le> 100 \<Longrightarrow>
   length (wsMessages (snd (startPollingCall env callId rc s))) \<le> 100"
  by (simp add: startPollingCall_def Let_def addWsMessage_length log_stop split: sum.splits)

lemma log_connectWebSocket: "length (wsMessages (connectWebSocket env u rc s)) \<le> 100"
  by (simp add: connectWebSocket_def Let_def addWsMessage_length
      split: option.splits sum.splits)

lemma log_disconnect [simp]:
  "wsMessages (disconnectWebSockets s) = wsMessages s"
  by (simp add: disconnectWebSockets_def ws_close_def set_readyState_def set_connected_def
      split: option.splits)

lemma log_connectWebSockets:
  "length (wsMessages s) \<le> 100 \<Longrightarrow>
   length (wsMessages (snd (connectWebSockets env l c rc s))) \<le> 100"
  by (simp add: connectWebSockets_def Let_def log_connectWebSocket addWsMessage_length
      split: sum.splits)

lemma log_poll_result:
  "length (wsMessages s) \<le> 100 \<Longrightarrow> length (wsMessages (poll_result env callId rc outcome s)) \<le> 100"
  by (rule poll_result_preserves [where P = "\<lambda>s. length (wsMessages s) \<le> 100"])
     (simp_all add: addWsMessage_length log_connectWebSockets log_stop)

lemma log_poll_tick:
  "length (wsMessages s) \<le> 100 \<Longrightarrow> length (wsMessages (poll_tick env net svc callId rc s)) \<le> 100"
  by (simp add: poll_tick_def log_poll_result)

lemma log_call_response:
  "length (wsMessages s) \<le> 100 \<Longrightarrow> length (wsMessages (call_response env response rc s)) \<le> 100"
  by (simp add: call_response_def Let_def log_start log_connectWebSockets)

lemma log_socket_handlers:
  "length (wsMessages s) \<le> 100 \<Longrightarrow> length (wsMessages (ws_onopen w s)) \<le> 100"
  "length (wsMessages s) \<le> 100 \<Longrightarrow> length (wsMessages (ws_onclose w wc code reason s)) \<le> 100"
  "length (wsMessages s) \<le> 100 \<Longrightarrow> length (wsMessages (ws_onerror w s)) \<le> 100"
  "length (wsMessages s) \<le> 100 \<Longrightarrow> length (wsMessages (connection_timeout w s)) \<le> 100"
  "length (wsMessages (retry_callback env u rc s)) \<le> 100"
  "length (wsMessages (ws_onmessage env frame c s)) \<le> 100"
  by (simp_all add: ws_onopen_def ws_onclose_def ws_onerror_def connection_timeout_def
      retry_callback_def ws_onmessage_def Let_def log_connectWebSocket addWsMessage_length
      split: option.splits promise.splits sum.splits)

lemma log_fire_timeout:
  "length (wsMessages s) \<le> 100 \<Longrightarrow> length (wsMessages (fire_timeout env h s)) \<le> 100"
  by (simp add: fire_timeout_def log_socket_handlers
      split: option.splits timeout_action.splits)

lemma log_step:
  "length (wsMessages s) \<le> 100 \<Longrightarrow> length (wsMessages (step env e s)) \<le> 100"
  by (cases e)
     (simp_all add: log_poll_result log_poll_tick log_call_response log_socket_handlers
        log_fire_timeout unmount_def log_stop split: option.splits)

lemma log_run:
  "length (wsMessages s) \<le> 100 \<Longrightarrow> length (wsMessages (run env es s)) \<le> 100"
  by (induction es arbitrary: s) (simp_all add: log_step)

lemma log_reachable: "length (wsMessages (run env evs initial)) \<le> 100"
  by (rule log_run) (simp add: initial_def)

text \<open>
  C5. In every state the component can reach, the log holds at most 100 messages. One
  append leaves at most 100 messages in the log; on a log of 100 it drops the
  first (oldest) message and puts the new one last, on a shorter log it drops nothing.
  From a log of at most 100 messages (the component starts with the empty log), after any
  sequence of appends the log is the last 100 of all messages in arrival order.
\<close>

theorem wsMessages_last_100:
  "length (wsMessages (run env evs initial)) \<le> 100
   \<and> length (wsMessages (addWsMessage type data src s)) \<le> 100
   \<and> (length (wsMessages s) = 100 \<longrightarrow>
        wsMessages (addWsMessage type data src s) =
          tl (wsMessages s) @ [\<lparr> m_type = type, m_data = data, timestamp = clock s, source = src \<rparr>])
   \<and> (length (wsMessages s) < 100 \<longrightarrow>
        wsMessages (addWsMessage type data src s) =
          wsMessages s @ [\<lparr> m_type = type, m_data = data, timestamp = clock s, source = src \<rparr>])
   \<and> (length (wsMessages s) \<le> 100 \<longrightarrow>
        length (wsMessages (add_all ms s)) \<le> 100
        \<and> wsMessages (add_all ms s) = slice_last 100 (wsMessages s @ messages_of ms))"
proof (intro conjI impI)
  show "length (wsMessages (run env evs initial)) \<le> 100"
    by (rule log_reachable)
next
  show "length (wsMessages (addWsMessage type data src s)) \<le> 100"
    by (rule addWsMessage_length)
next
  assume "length (wsMessages s) = 100"
  then show "wsMessages (addWsMessage type data src s) =
      tl (wsMessages s) @ [\<lparr> m_type = type, m_data = data, timestamp = clock s, source = src \<rparr>]"
    by (cases "wsMessages s") (simp_all add: addWsMessage_log slice_last_def)
next
  assume "length (wsMessages s) < 100"
  then show "wsMessages (addWsMessage type data src s) =
      wsMessages s @ [\<lparr> m_type = type, m_data = data, timestamp = clock s, source = src \<rparr>]"
    by (simp add: addWsMessage_log slice_last_def)
next
  assume len: "length (wsMessages s) \<le> 100"
  then show eq: "wsMessages (add_all ms s) = slice_last 100 (wsMessages s @ messages_of ms)"
    by (rule add_all_log)
  show "length (wsMessages (add_all ms s)) \<le> 100"
    by (simp add: eq slice_last_length)
qed

theorem wsMessages_last_100_witness:
  "length (wsMessages initial) < 100
   \<and> length (wsMessages initial) \<le> 100
   \<and> wsMessages (addWsMessage ''info'' (JStr ''a'') listen initial) =
       [\<lparr> m_type = ''info'', m_data = JStr ''a'', timestamp = [], source = listen \<rparr>]
   \<and> length (wsMessages (add_all (replicate 100 (''t'', ''raw'', JNull, listen)) initial)) = 100
   \<and> wsMessages (addWsMessage ''info'' (JStr ''a'') listen
        (add_all (replicate 100 (''t'', ''raw'', JNull, listen)) initial)) =
       replicate 99 \<lparr> m_type = ''raw'', m_data = JNull, timestamp = ''t'', source = listen \<rparr> @
       [\<lparr> m_type = ''info'', m_data = JStr ''a'', timestamp = ''t'', source = listen \<rparr>]"
proof -
  let ?ms = "replicate 100 (''t'', ''raw'', JNull, listen)"
  let ?m = "\<lparr> m_type = ''raw'', m_data = JNull, timestamp = ''t'', source = listen \<rparr>"
  let ?full = "add_all ?ms initial"
  have i: "wsMessages initial = []" "clock initial = []" by (simp_all add: initial_def)
  have l0: "length (wsMessages initial) < 100" and l1: "length (wsMessages initial) \<le> 100"
    by (simp_all add: i)
  note t0 = wsMessages_last_100 [of page_fragment "[]" "''info''" "JStr ''a''" listen initial ?ms]
  from t0 l0 have a: "wsMessages (addWsMessage ''info'' (JStr ''a'') listen initial) =
      [\<lparr> m_type = ''info'', m_data = JStr ''a'', timestamp = [], source = listen \<rparr>]"
    by (simp add: i)
  from t0 l1 have "wsMessages ?full = slice_last 100 (wsMessages initial @ messages_of ?ms)"
    by blast
  then have full: "wsMessages ?full = replicate 100 ?m"
    by (simp add: i messages_of_def slice_last_def)
  then have len: "length (wsMessages ?full) = 100" by simp
  have ck: "clock (add_all ms s) = (if ms = [] then clock s else fst (last ms))" for ms s
    by (induction ms arbitrary: s) (auto simp: addWsMessage_def)
  have c: "clock ?full = ''t''" by (simp add: ck)
  from wsMessages_last_100 [of page_fragment "[]" "''info''" "JStr ''a''" listen ?full "[]"] len
  have "wsMessages (addWsMessage ''info'' (JStr ''a'') listen ?full) =
      tl (wsMessages ?full) @
      [\<lparr> m_type = ''info'', m_data = JStr ''a'', timestamp = clock ?full, source = listen \<rparr>]"
    by blast
  then have b: "wsMessages (addWsMessage ''info'' (JStr ''a'') listen ?full) =
      replicate 99 ?m @
      [\<lparr> m_type = ''info'', m_data = JStr ''a'', timestamp = ''t'', source = listen \<rparr>]"
    by (simp add: full c)
  from l0 l1 a len b show ?thesis by blast
qed

section \<open>Poller and channel\<close>


lemma stop_frame [simp]:
  "listenWsRef (stopPollingCall s) = listenWsRef s"
  by (simp add: stopPollingCall_def clearInterval_def split: option.splits)


lemma disconnect_last_handle [simp]: "last_handle (disconnectWebSockets s) = last_handle s"
  by (simp add: disconnectWebSockets_def Let_def ws_close_def set_readyState_def split: option.splits)






section \<open>Retries of the channel\<close>

text \<open>
  An unclean close of a socket whose handlers captured a retry count below 3 always
  schedules a retry, with the delay of the captured count; the retry count of the state is
  not read. The retry callback increments the count of the state, and
  \<^verbatim>\<open>connectWebSocket\<close> sets it back to 0 and creates a socket whose handlers captured
  the same count as before.
\<close>

lemma ws_onclose_schedules_retry:
  assumes "map_of (sockets s) w = Some x" and "s_retryCount x < 3"
  shows "timeouts (ws_onclose w False code reason s) =
           filter (\<lambda>(k, t). k \<noteq> s_timeout x) (timeouts s) @
           [(Suc (last_handle s),
             \<lparr> delay_ms = 2 ^ s_retryCount x * 1000,
               action = RetryConnect (s_url x) (s_retryCount x) \<rparr>)]"
  using assms by (simp add: ws_onclose_def Let_def clearTimeout_def set_connected_def)

lemma retry_callback_same_scope:
  assumes "WebSocket_throws env u = None"
  shows "sockets (retry_callback env u rc s) =
           sockets s @
           [(Suc (last_handle s),
             \<lparr> s_url = u, readyState = CONNECTING,
               s_timeout = Suc (Suc (last_handle s)), s_retryCount = rc \<rparr>)]
       \<and> retryCount (wsConnection (retry_callback env u rc s)) = 0"
  using assms by (simp add: retry_callback_def connectWebSocket_def Let_def)

text \<open>
  C7. The listen socket of a call closes uncleanly on every attempt. After the first
  attempt and three retries (four sockets, all closed) a fourth retry is scheduled; its
  delay is 1000 ms, as was the delay of the second retry; the retry count of the state
  is 0; and each of the three retries announced itself as attempt 1 of 3.
\<close>

theorem retries_never_exhausted:
  "map fst (sockets (run page_fragment failing_run initial)) = [1, 4, 7, 10]
   \<and> map (\<lambda>(w, x). readyState x) (sockets (run page_fragment failing_run initial)) =
       [CLOSED, CLOSED, CLOSED, CLOSED]
   \<and> scheduled_retries (run page_fragment failing_run initial) = [(1000, ''wss://listen'')]
   \<and> retryCount (wsConnection (run page_fragment failing_run initial)) = 0
   \<and> scheduled_retries (run page_fragment (take 4 failing_run) initial) = [(1000, ''wss://listen'')]
   \<and> length (filter (\<lambda>m. m_data m = JStr ''Retrying listen connection (attempt 1/3) in 1s...'')
         (wsMessages (run page_fragment failing_run initial))) = 3"
  by (simp add: failing_run_def handler_defs example_defs Let_def js_or_def scheduled_retries_def
      show_nat.simps char_of_def bit_iff_odd)

end
